theory Spec2Isabelle
  imports Main "HOL-Library.Word" "HOL-Library.AList"
begin

section \<open>Data model of the websocket notification subsystem\<close>

text \<open>
  The Go maps of the source are association lists: \<open>map[K]V\<close> is a list of pairs read with
  \<^const>\<open>map_of\<close>, written with \<^const>\<open>AList.update\<close> and \<^const>\<open>AList.delete\<close>; a set
  \<open>map[K]struct{}\<close> is a list of keys. A \<open>range\<close> loop visits the entries in list order,
  which is one of the orders Go may choose.

  A websocket client is identified by its \<open>quit\<close> channel, as in the source, where every
  client map is keyed by \<open>wsc.quit\<close> and holds the pointer \<open>wsc\<close> as value; the model keeps
  the key only, and the client record it points to lives in the store \<open>heap\<close>.
\<close>

type_synonym bytes = "8 word list"
type_synonym ShaHash = "8 word list"
type_synonym clientId = nat

datatype OutPoint = OutPoint (Hash: ShaHash) (Index: "32 word")

record TxIn =
  PreviousOutPoint :: OutPoint

record TxOut =
  Value :: "64 word"
  PkScript :: bytes

record MsgTx =
  TxIn :: "TxIn list"
  TxOut :: "TxOut list"

record Tx =
  MsgTx :: MsgTx
  txSha :: ShaHash
  txIndex :: int

record Block =
  blkSha :: ShaHash
  blkHeight :: "64 word"
  blkTimestamp :: "64 word"
  blkPrevBlock :: ShaHash
  Transactions :: "Tx list"

text \<open>The address kinds that \<open>rescanBlock\<close> distinguishes by a type switch.\<close>

datatype Address =
    AddressPubKeyHash bytes
  | AddressScriptHash bytes
  | AddressPubKey (ScriptAddress: bytes) (AddressPubKeyHashOf: bytes)
  | AddressOther string

datatype BlockDetails =
  BlockDetails (bdHeight: "32 word") (bdHash: ShaHash) (bdIndex: int) (bdTime: "64 word")

text \<open>
  The notifications of package \<open>btcjson\<close>. A marshalled notification is represented by the
  notification it encodes; whether marshalling succeeds is the external predicate
  \<open>marshalFails\<close>. The amount of \<open>txaccepted\<close> is kept in satoshi (the source converts it to
  a float in BTC).
\<close>

datatype ntfn =
    BlockConnectedNtfn ShaHash "32 word" "64 word"
  | BlockDisconnectedNtfn ShaHash "32 word" "64 word"
  | TxAcceptedNtfn ShaHash "64 word"
  | TxAcceptedVerboseNtfn string
  | RecvTxNtfn string "BlockDetails option"
  | RedeemingTxNtfn string "BlockDetails option"
  | RescanProgressNtfn ShaHash "32 word" "64 word"
  | RescanFinishedNtfn ShaHash "32 word" "64 word"

datatype logEntry = Warnf string | Errorf string | Infof string | Debugf string

datatype error = ErrClientQuit

record wsResponse =
  msg :: bytes
  doneChan :: "nat option"

record wsClient =
  disconnected :: bool
  addr :: string
  authenticated :: bool
  isAdmin :: bool
  verboseTxUpdates :: bool
  addrRequests :: "string list"
  spentRequests :: "OutPoint list"
  ntfnChan :: "ntfn list"
  sendChan :: "wsResponse list"

text \<open>
  The packages outside the repository's websocket file: script parsing, address encoding,
  transaction serialisation and JSON marshalling.
\<close>

record externals =
  ExtractPkScriptAddrs :: "bytes \<Rightarrow> Address list option"
  EncodeAddress :: "Address \<Rightarrow> string"
  txHexString :: "Tx \<Rightarrow> string"
  marshalFails :: "ntfn \<Rightarrow> bool"
  createTxRawResult :: "Tx \<Rightarrow> string option"

definition MarshalCmd :: "externals \<Rightarrow> ntfn \<Rightarrow> ntfn option" where
  "MarshalCmd x n = (if marshalFails x n then None else Some n)"

text \<open>
  The local maps of \<open>notificationHandler\<close>, the client records they point to and the log.
\<close>

record handlerState =
  clients :: "clientId list"
  blockNotifications :: "clientId list"
  txNotifications :: "clientId list"
  watchedOutPoints :: "(OutPoint \<times> clientId list) list"
  watchedAddrs :: "(string \<times> clientId list) list"
  heap :: "clientId \<Rightarrow> wsClient"
  log :: "logEntry list"

section \<open>Client operations\<close>

definition Disconnected :: "wsClient \<Rightarrow> bool" where
  "Disconnected c = disconnected c"

text \<open>\<open>Disconnect\<close> closes \<open>quit\<close> and the connection and sets the flag, once.\<close>

definition Disconnect :: "wsClient \<Rightarrow> wsClient" where
  "Disconnect c = (if disconnected c then c else c\<lparr>disconnected := True\<rparr>)"

text \<open>
  \<open>QueueNotification\<close>: the channel \<open>ntfnChan\<close> is the list of the notifications handed
  over so far (the source's send waits for the queue handler to take the previous one).
\<close>

definition QueueNotification :: "wsClient \<Rightarrow> ntfn \<Rightarrow> error option \<times> wsClient" where
  "QueueNotification c marshalledJSON =
     (if Disconnected c then (Some ErrClientQuit, c)
      else (None, c\<lparr>ntfnChan := ntfnChan c @ [marshalledJSON]\<rparr>))"

text \<open>
  \<open>SendMessage\<close> has no result in the source: the model returns the client, whose
  \<open>sendChan\<close> is the list of the responses handed over so far (the source's send waits
  while the channel holds \<open>websocketSendBufferSize\<close> responses), and the values sent on the
  done channel.
\<close>

definition websocketSendBufferSize :: nat where
  "websocketSendBufferSize = 50"

definition SendMessage :: "wsClient \<Rightarrow> bytes \<Rightarrow> nat option \<Rightarrow> wsClient \<times> (nat \<times> bool) list" where
  "SendMessage c marshalledJSON done =
     (if Disconnected c then
        (case done of
           None \<Rightarrow> (c, [])
         | Some d \<Rightarrow> (c, [(d, False)]))
      else (c\<lparr>sendChan := sendChan c @ [\<lparr>msg = marshalledJSON, doneChan = done\<rparr>]\<rparr>, []))"

section \<open>The notification handler\<close>

text \<open>
  The call \<open>wsc.QueueNotification(marshalledJSON)\<close> as the handler makes it: on the client
  record in the store, with the returned error ignored.
\<close>

definition queueTo :: "handlerState \<Rightarrow> clientId \<Rightarrow> ntfn \<Rightarrow> handlerState" where
  "queueTo m wsc marshalledJSON =
     m\<lparr>heap := (heap m)(wsc := snd (QueueNotification (heap m wsc) marshalledJSON))\<rparr>"

fun addSpentRequests :: "handlerState \<Rightarrow> clientId \<Rightarrow> OutPoint list \<Rightarrow> handlerState" where
  "addSpentRequests m wsc [] = m"
| "addSpentRequests m wsc (op # ops) =
     (let c = heap m wsc;
          m1 = m\<lparr>heap := (heap m)(wsc := c\<lparr>spentRequests := List.insert op (spentRequests c)\<rparr>)\<rparr>;
          cmap = (case map_of (watchedOutPoints m1) op of None \<Rightarrow> [] | Some cm \<Rightarrow> cm);
          m2 = m1\<lparr>watchedOutPoints := AList.update op (List.insert wsc cmap) (watchedOutPoints m1)\<rparr>
      in addSpentRequests m2 wsc ops)"

definition removeSpentRequest :: "handlerState \<Rightarrow> clientId \<Rightarrow> OutPoint \<Rightarrow> handlerState" where
  "removeSpentRequest m wsc op =
     (let c = heap m wsc;
          m1 = m\<lparr>heap := (heap m)(wsc := c\<lparr>spentRequests := removeAll op (spentRequests c)\<rparr>)\<rparr>
      in case map_of (watchedOutPoints m1) op of
           None \<Rightarrow> m1\<lparr>log := log m1 @ [Warnf ''Attempt to remove nonexistent spent request'']\<rparr>
         | Some notifyMap \<Rightarrow>
             (let notifyMap' = removeAll wsc notifyMap
              in if length notifyMap' = 0
                 then m1\<lparr>watchedOutPoints := AList.delete op (watchedOutPoints m1)\<rparr>
                 else m1\<lparr>watchedOutPoints := AList.update op notifyMap' (watchedOutPoints m1)\<rparr>))"

fun addAddrRequests :: "handlerState \<Rightarrow> clientId \<Rightarrow> string list \<Rightarrow> handlerState" where
  "addAddrRequests m wsc [] = m"
| "addAddrRequests m wsc (a # addrs) =
     (let c = heap m wsc;
          m1 = m\<lparr>heap := (heap m)(wsc := c\<lparr>addrRequests := List.insert a (addrRequests c)\<rparr>)\<rparr>;
          cmap = (case map_of (watchedAddrs m1) a of None \<Rightarrow> [] | Some cm \<Rightarrow> cm);
          m2 = m1\<lparr>watchedAddrs := AList.update a (List.insert wsc cmap) (watchedAddrs m1)\<rparr>
      in addAddrRequests m2 wsc addrs)"

definition removeAddrRequest :: "handlerState \<Rightarrow> clientId \<Rightarrow> string \<Rightarrow> handlerState" where
  "removeAddrRequest m wsc a =
     (let c = heap m wsc;
          m1 = m\<lparr>heap := (heap m)(wsc := c\<lparr>addrRequests := removeAll a (addrRequests c)\<rparr>)\<rparr>
      in case map_of (watchedAddrs m1) a of
           None \<Rightarrow> m1\<lparr>log := log m1 @ [Warnf ''Attempt to remove nonexistent addr request'']\<rparr>
         | Some cmap \<Rightarrow>
             (let cmap' = removeAll wsc cmap
              in if length cmap' = 0
                 then m1\<lparr>watchedAddrs := AList.delete a (watchedAddrs m1)\<rparr>
                 else m1\<lparr>watchedAddrs := AList.update a cmap' (watchedAddrs m1)\<rparr>))"

definition blockDetails :: "Block option \<Rightarrow> int \<Rightarrow> BlockDetails option" where
  "blockDetails block txIdx =
     (case block of
        None \<Rightarrow> None
      | Some b \<Rightarrow> Some (BlockDetails (ucast (blkHeight b)) (blkSha b) txIdx (blkTimestamp b)))"

definition newRedeemingTxNotification ::
  "externals \<Rightarrow> string \<Rightarrow> int \<Rightarrow> Block option \<Rightarrow> ntfn option" where
  "newRedeemingTxNotification x txHex idx block =
     MarshalCmd x (RedeemingTxNtfn txHex (blockDetails block idx))"

text \<open>
  The loop over the clients of one watched outpoint in \<open>notifyForTxIns\<close>. The loop variable
  ranges over \<open>cmap\<close> as it was when the loop started; the body deletes only the entry it
  is visiting. \<open>wscNotified\<close> is the per-transaction set of clients already notified.
\<close>

fun notifyTxInClients ::
  "OutPoint \<Rightarrow> ntfn \<Rightarrow> Block option \<Rightarrow> clientId list \<Rightarrow> handlerState \<times> clientId list
     \<Rightarrow> handlerState \<times> clientId list" where
  "notifyTxInClients prevOut marshalledJSON block [] (m, wscNotified) = (m, wscNotified)"
| "notifyTxInClients prevOut marshalledJSON block (wsc # rest) (m, wscNotified) =
     (let m1 = (if block \<noteq> None then removeSpentRequest m wsc prevOut else m)
      in if wsc \<notin> set wscNotified
         then notifyTxInClients prevOut marshalledJSON block rest
                (queueTo m1 wsc marshalledJSON, List.insert wsc wscNotified)
         else notifyTxInClients prevOut marshalledJSON block rest (m1, wscNotified))"

fun notifyTxIns ::
  "externals \<Rightarrow> Tx \<Rightarrow> Block option \<Rightarrow> TxIn list \<Rightarrow> handlerState \<times> clientId list
     \<Rightarrow> handlerState \<times> clientId list" where
  "notifyTxIns x tx block [] (m, wscNotified) = (m, wscNotified)"
| "notifyTxIns x tx block (txIn # rest) (m, wscNotified) =
     (let prevOut = PreviousOutPoint txIn
      in case map_of (watchedOutPoints m) prevOut of
           None \<Rightarrow> notifyTxIns x tx block rest (m, wscNotified)
         | Some cmap \<Rightarrow>
             (case newRedeemingTxNotification x (txHexString x tx) (txIndex tx) block of
                None \<Rightarrow>
                  notifyTxIns x tx block rest
                    (m\<lparr>log := log m @ [Warnf ''Failed to marshal redeemingtx notification'']\<rparr>,
                     wscNotified)
              | Some marshalledJSON \<Rightarrow>
                  notifyTxIns x tx block rest
                    (notifyTxInClients prevOut marshalledJSON block cmap (m, wscNotified))))"

definition notifyForTxIns :: "externals \<Rightarrow> handlerState \<Rightarrow> Tx \<Rightarrow> Block option \<Rightarrow> handlerState" where
  "notifyForTxIns x m tx block =
     (if length (watchedOutPoints m) = 0 then m
      else fst (notifyTxIns x tx block (TxIn (MsgTx tx)) (m, [])))"

text \<open>The loop over the clients of one watched address in \<open>notifyForTxOuts\<close>.\<close>

fun notifyTxOutClients ::
  "OutPoint \<Rightarrow> ntfn \<Rightarrow> clientId list \<Rightarrow> handlerState \<times> clientId list
     \<Rightarrow> handlerState \<times> clientId list" where
  "notifyTxOutClients op marshalledJSON [] (m, wscNotified) = (m, wscNotified)"
| "notifyTxOutClients op marshalledJSON (wsc # rest) (m, wscNotified) =
     (let m1 = addSpentRequests m wsc [op]
      in if wsc \<notin> set wscNotified
         then notifyTxOutClients op marshalledJSON rest
                (queueTo m1 wsc marshalledJSON, List.insert wsc wscNotified)
         else notifyTxOutClients op marshalledJSON rest (m1, wscNotified))"

text \<open>The loop over the addresses extracted from output \<open>i\<close>.\<close>

fun notifyTxOutAddrs ::
  "externals \<Rightarrow> Tx \<Rightarrow> Block option \<Rightarrow> nat \<Rightarrow> Address list \<Rightarrow> handlerState \<times> clientId list
     \<Rightarrow> handlerState \<times> clientId list" where
  "notifyTxOutAddrs x tx block i [] (m, wscNotified) = (m, wscNotified)"
| "notifyTxOutAddrs x tx block i (txAddr # rest) (m, wscNotified) =
     (case map_of (watchedAddrs m) (EncodeAddress x txAddr) of
        None \<Rightarrow> notifyTxOutAddrs x tx block i rest (m, wscNotified)
      | Some cmap \<Rightarrow>
          (case MarshalCmd x (RecvTxNtfn (txHexString x tx) (blockDetails block (txIndex tx))) of
             None \<Rightarrow>
               notifyTxOutAddrs x tx block i rest
                 (m\<lparr>log := log m @ [Errorf ''Failed to marshal processedtx notification'']\<rparr>,
                  wscNotified)
           | Some marshalledJSON \<Rightarrow>
               notifyTxOutAddrs x tx block i rest
                 (notifyTxOutClients (OutPoint (txSha tx) (of_nat i)) marshalledJSON cmap
                    (m, wscNotified))))"

fun notifyTxOuts ::
  "externals \<Rightarrow> Tx \<Rightarrow> Block option \<Rightarrow> nat \<Rightarrow> TxOut list \<Rightarrow> handlerState \<times> clientId list
     \<Rightarrow> handlerState \<times> clientId list" where
  "notifyTxOuts x tx block i [] (m, wscNotified) = (m, wscNotified)"
| "notifyTxOuts x tx block i (txOut # rest) (m, wscNotified) =
     (case ExtractPkScriptAddrs x (PkScript txOut) of
        None \<Rightarrow> notifyTxOuts x tx block (Suc i) rest (m, wscNotified)
      | Some txAddrs \<Rightarrow>
          notifyTxOuts x tx block (Suc i) rest
            (notifyTxOutAddrs x tx block i txAddrs (m, wscNotified)))"

definition notifyForTxOuts :: "externals \<Rightarrow> handlerState \<Rightarrow> Tx \<Rightarrow> Block option \<Rightarrow> handlerState" where
  "notifyForTxOuts x m tx block =
     (if length (watchedAddrs m) = 0 then m
      else fst (notifyTxOuts x tx block 0 (TxOut (MsgTx tx)) (m, [])))"

definition notifyForTx :: "externals \<Rightarrow> handlerState \<Rightarrow> Tx \<Rightarrow> Block option \<Rightarrow> handlerState" where
  "notifyForTx x m tx block =
     (let m1 = (if length (watchedOutPoints m) \<noteq> 0 then notifyForTxIns x m tx block else m)
      in if length (watchedAddrs m1) \<noteq> 0 then notifyForTxOuts x m1 tx block else m1)"

definition notifyBlockConnected :: "externals \<Rightarrow> handlerState \<Rightarrow> Block \<Rightarrow> handlerState" where
  "notifyBlockConnected x m block =
     (case MarshalCmd x (BlockConnectedNtfn (blkSha block) (ucast (blkHeight block))
                           (blkTimestamp block)) of
        None \<Rightarrow> m\<lparr>log := log m @ [Errorf ''Failed to marshal block connected notification'']\<rparr>
      | Some marshalledJSON \<Rightarrow>
          foldl (\<lambda>m' wsc. queueTo m' wsc marshalledJSON) m (blockNotifications m))"

definition notifyBlockDisconnected :: "externals \<Rightarrow> handlerState \<Rightarrow> Block \<Rightarrow> handlerState" where
  "notifyBlockDisconnected x m block =
     (if length (blockNotifications m) = 0 then m
      else case MarshalCmd x (BlockDisconnectedNtfn (blkSha block) (ucast (blkHeight block))
                                (blkTimestamp block)) of
             None \<Rightarrow>
               m\<lparr>log := log m @ [Errorf ''Failed to marshal block disconnected notification'']\<rparr>
           | Some marshalledJSON \<Rightarrow>
               foldl (\<lambda>m' wsc. queueTo m' wsc marshalledJSON) m (blockNotifications m))"

text \<open>
  The loop of \<open>notifyForNewTx\<close> over the mempool subscribers. \<open>verbose\<close> is
  \<open>marshalledJSONVerbose\<close>, built for the first verbose subscriber and reused; both
  failures in building it leave the function by \<open>return\<close>.
\<close>

fun notifyNewTxClients ::
  "externals \<Rightarrow> Tx \<Rightarrow> ntfn \<Rightarrow> clientId list \<Rightarrow> ntfn option \<Rightarrow> handlerState \<Rightarrow> handlerState" where
  "notifyNewTxClients x tx marshalledJSON [] verbose m = m"
| "notifyNewTxClients x tx marshalledJSON (wsc # rest) verbose m =
     (if verboseTxUpdates (heap m wsc) then
        (case verbose of
           Some marshalledJSONVerbose \<Rightarrow>
             notifyNewTxClients x tx marshalledJSON rest verbose
               (queueTo m wsc marshalledJSONVerbose)
         | None \<Rightarrow>
             (case createTxRawResult x tx of
                None \<Rightarrow> m
              | Some rawTx \<Rightarrow>
                  (case MarshalCmd x (TxAcceptedVerboseNtfn rawTx) of
                     None \<Rightarrow>
                       m\<lparr>log := log m @ [Errorf ''Failed to marshal verbose tx notification'']\<rparr>
                   | Some marshalledJSONVerbose \<Rightarrow>
                       notifyNewTxClients x tx marshalledJSON rest (Some marshalledJSONVerbose)
                         (queueTo m wsc marshalledJSONVerbose))))
      else notifyNewTxClients x tx marshalledJSON rest verbose (queueTo m wsc marshalledJSON))"

definition notifyForNewTx :: "externals \<Rightarrow> handlerState \<Rightarrow> Tx \<Rightarrow> handlerState" where
  "notifyForNewTx x m tx =
     (let amount = foldl (\<lambda>a txOut. a + Value txOut) 0 (TxOut (MsgTx tx))
      in case MarshalCmd x (TxAcceptedNtfn (txSha tx) amount) of
           None \<Rightarrow> m\<lparr>log := log m @ [Errorf ''Failed to marshal tx notification'']\<rparr>
         | Some marshalledJSON \<Rightarrow>
             notifyNewTxClients x tx marshalledJSON (txNotifications m) None m)"

text \<open>The messages read from \<open>notificationMsgs\<close>, and the body of the handler's type switch.\<close>

datatype notification =
    notificationBlockConnected Block
  | notificationBlockDisconnected Block
  | notificationTxAcceptedByMempool bool Tx
  | notificationRegisterBlocks clientId
  | notificationUnregisterBlocks clientId
  | notificationRegisterClient clientId
  | notificationUnregisterClient clientId
  | notificationRegisterSpent clientId "OutPoint list"
  | notificationUnregisterSpent clientId OutPoint
  | notificationRegisterAddr clientId "string list"
  | notificationUnregisterAddr clientId string
  | notificationRegisterNewMempoolTxs clientId
  | notificationUnregisterNewMempoolTxs clientId
  | notificationOther

fun notificationHandler :: "externals \<Rightarrow> handlerState \<Rightarrow> notification \<Rightarrow> handlerState" where
  "notificationHandler x m (notificationBlockConnected block) =
     (let m1 = (if length (watchedOutPoints m) \<noteq> 0 \<or> length (watchedAddrs m) \<noteq> 0
                then foldl (\<lambda>m' tx. notifyForTx x m' tx (Some block)) m (Transactions block)
                else m)
      in if length (blockNotifications m1) \<noteq> 0 then notifyBlockConnected x m1 block else m1)"
| "notificationHandler x m (notificationBlockDisconnected block) =
     notifyBlockDisconnected x m block"
| "notificationHandler x m (notificationTxAcceptedByMempool isNew tx) =
     (let m1 = (if isNew \<and> length (txNotifications m) \<noteq> 0 then notifyForNewTx x m tx else m)
      in notifyForTx x m1 tx None)"
| "notificationHandler x m (notificationRegisterBlocks wsc) =
     m\<lparr>blockNotifications := List.insert wsc (blockNotifications m)\<rparr>"
| "notificationHandler x m (notificationUnregisterBlocks wsc) =
     m\<lparr>blockNotifications := removeAll wsc (blockNotifications m)\<rparr>"
| "notificationHandler x m (notificationRegisterClient wsc) =
     m\<lparr>clients := List.insert wsc (clients m)\<rparr>"
| "notificationHandler x m (notificationUnregisterClient wsc) =
     (let m1 = m\<lparr>blockNotifications := removeAll wsc (blockNotifications m),
                  txNotifications := removeAll wsc (txNotifications m)\<rparr>;
          m2 = foldl (\<lambda>m' k. removeSpentRequest m' wsc k) m1 (spentRequests (heap m1 wsc));
          m3 = foldl (\<lambda>m' a. removeAddrRequest m' wsc a) m2 (addrRequests (heap m2 wsc))
      in m3\<lparr>clients := removeAll wsc (clients m3)\<rparr>)"
| "notificationHandler x m (notificationRegisterSpent wsc ops) = addSpentRequests m wsc ops"
| "notificationHandler x m (notificationUnregisterSpent wsc op) = removeSpentRequest m wsc op"
| "notificationHandler x m (notificationRegisterAddr wsc addrs) = addAddrRequests m wsc addrs"
| "notificationHandler x m (notificationUnregisterAddr wsc a) = removeAddrRequest m wsc a"
| "notificationHandler x m (notificationRegisterNewMempoolTxs wsc) =
     m\<lparr>txNotifications := List.insert wsc (txNotifications m)\<rparr>"
| "notificationHandler x m (notificationUnregisterNewMempoolTxs wsc) =
     m\<lparr>txNotifications := removeAll wsc (txNotifications m)\<rparr>"
| "notificationHandler x m notificationOther =
     m\<lparr>log := log m @ [Warnf ''Unhandled notification type'']\<rparr>"

section \<open>Message handling of a client\<close>

datatype RPCErrorCode =
    ErrRPCParse
  | ErrRPCInvalidParams
  | ErrRPCInternal
  | ErrRPCInvalidAddressOrKey
  | ErrRPCDatabase
  | ErrRPCBlockNotFound
  | ErrRPCDecodeHexString

datatype RPCError = RPCError RPCErrorCode string

datatype Cmd = AuthenticateCmd (Username: string) (Passphrase: string) | OtherCmd string

record Request =
  ID :: "bytes option"
  Method :: string
  Params :: "bytes list"

record parsedRPCCmd =
  id :: "bytes option"
  cmdMethod :: string
  cmd :: Cmd
  err :: "RPCError option"

record rpcServer =
  authsha :: bytes
  limitauthsha :: bytes

text \<open>
  What \<open>handleMessage\<close> uses from outside the file: the JSON decoder, \<open>parseCmd\<close>, base64,
  SHA-256, \<open>createMarshalledReply\<close>, the table \<open>rpcLimited\<close>, and \<open>dispatch\<close>, which stands
  for the part of \<open>handleMessage\<close> after the check for a repeated \<open>authenticate\<close> (the
  hand-over to the async handler, the websocket handlers and \<open>standardCmdResult\<close>).
\<close>

record rpcExternals =
  jsonUnmarshal :: "bytes \<Rightarrow> string + Request"
  parseCmd :: "Request \<Rightarrow> parsedRPCCmd"
  base64Encode :: "string \<Rightarrow> string"
  Sum256 :: "string \<Rightarrow> bytes"
  createMarshalledReply :: "bytes option \<Rightarrow> string option \<Rightarrow> RPCError option \<Rightarrow> bytes option"
  rpcLimited :: "string list"
  dispatch :: "wsClient \<Rightarrow> parsedRPCCmd \<Rightarrow> wsClient \<times> logEntry list"

definition ConstantTimeCompare :: "bytes \<Rightarrow> bytes \<Rightarrow> int" where
  "ConstantTimeCompare a b = (if a = b then 1 else 0)"

text \<open>Marshal a reply and send it, or log the marshalling failure and send nothing.\<close>

definition sendReply ::
  "rpcExternals \<Rightarrow> wsClient \<Rightarrow> bytes option \<Rightarrow> string option \<Rightarrow> RPCError option \<Rightarrow> string
     \<Rightarrow> wsClient \<times> logEntry list" where
  "sendReply x c i result jsonErr failure =
     (case createMarshalledReply x i result jsonErr of
        None \<Rightarrow> (c, [Errorf failure])
      | Some reply \<Rightarrow> (fst (SendMessage c reply None), []))"

definition handleMessage ::
  "rpcServer \<Rightarrow> rpcExternals \<Rightarrow> wsClient \<Rightarrow> bytes \<Rightarrow> wsClient \<times> logEntry list" where
  "handleMessage s x c message =
     (if \<not> authenticated c then
        (case jsonUnmarshal x message of
           Inl e \<Rightarrow> (Disconnect c, [])
         | Inr request \<Rightarrow>
             (let parsedCmd = parseCmd x request
              in if err parsedCmd \<noteq> None then (Disconnect c, [])
                 else case cmd parsedCmd of
                        OtherCmd other \<Rightarrow>
                          (Disconnect c, [Warnf ''Unauthenticated websocket message received''])
                      | AuthenticateCmd username passphrase \<Rightarrow>
                          (let login = username @ '':'' @ passphrase;
                               auth = ''Basic '' @ base64Encode x login;
                               authSha = Sum256 x auth;
                               cmp = ConstantTimeCompare authSha (authsha s);
                               limitcmp = ConstantTimeCompare authSha (limitauthsha s)
                           in if cmp \<noteq> 1 \<and> limitcmp \<noteq> 1
                              then (Disconnect c, [Warnf ''Auth failure.''])
                              else sendReply x (c\<lparr>authenticated := True, isAdmin := (cmp = 1)\<rparr>)
                                     (id parsedCmd) None None
                                     ''Failed to marshal authenticate reply'')))
      else
        (case jsonUnmarshal x message of
           Inl e \<Rightarrow>
             sendReply x c None None
               (Some (RPCError ErrRPCParse (''Failed to parse request: '' @ e)))
               ''Failed to marshal parse failure reply''
         | Inr request \<Rightarrow>
             if ID request = None then (c, [])
             else if \<not> isAdmin c \<and> Method request \<notin> set (rpcLimited x) then
               sendReply x c (ID request) None
                 (Some (RPCError ErrRPCInvalidParams
                          ''limited user not authorized for this method''))
                 ''Failed to marshal parse failure reply''
             else
               (let pcmd = parseCmd x request
                in if err pcmd \<noteq> None then
                     sendReply x c (id pcmd) None (err pcmd)
                       ''Failed to marshal parse failure reply''
                   else case cmd pcmd of
                          AuthenticateCmd username passphrase \<Rightarrow>
                            (Disconnect c,
                             [Debugf ''Received command'',
                              Warnf ''Websocket client is already authenticated''])
                        | OtherCmd other \<Rightarrow>
                            (let (c', l) = dispatch x c pcmd
                             in (c', Debugf ''Received command'' # l)))))"

section \<open>Rescan\<close>

record rescanKeys =
  fallbacks :: "string list"
  pubKeyHashes :: "bytes list"
  scriptHashes :: "bytes list"
  compressedPubKeys :: "bytes list"
  uncompressedPubKeys :: "bytes list"
  unspent :: "OutPoint list"

definition unspentSlice :: "rescanKeys \<Rightarrow> OutPoint list" where
  "unspentSlice r = unspent r"

text \<open>
  What a rescan changes: the client (its notification queue), the lookup keys, the log,
  and the messages sent to the notification manager.
\<close>

record rescanState =
  rsClient :: wsClient
  lookups :: rescanKeys
  rsLog :: "logEntry list"
  rsQueued :: "notification list"

text \<open>A loop body either goes on to the next iteration or leaves the function.\<close>

datatype 'a flow = Next 'a | Return 'a

definition ErrRescanReorg :: RPCError where
  "ErrRescanReorg = RPCError ErrRPCDatabase ''Reorganize''"

text \<open>
  The inputs of one transaction in \<open>rescanBlock\<close>; the flag is \<open>spentNotified\<close>.
\<close>

fun rescanTxIns ::
  "externals \<Rightarrow> Tx \<Rightarrow> Block \<Rightarrow> TxIn list \<Rightarrow> rescanState \<times> bool \<Rightarrow> (rescanState \<times> bool) flow" where
  "rescanTxIns x tx blk [] (st, spentNotified) = Next (st, spentNotified)"
| "rescanTxIns x tx blk (txin # rest) (st, spentNotified) =
     (if PreviousOutPoint txin \<in> set (unspent (lookups st)) then
        (let st1 = st\<lparr>lookups := (lookups st)\<lparr>unspent :=
                         removeAll (PreviousOutPoint txin) (unspent (lookups st))\<rparr>\<rparr>
         in if spentNotified then rescanTxIns x tx blk rest (st1, spentNotified)
            else case newRedeemingTxNotification x (txHexString x tx) (txIndex tx) (Some blk) of
                   None \<Rightarrow>
                     rescanTxIns x tx blk rest
                       (st1\<lparr>rsLog := rsLog st1 @
                               [Errorf ''Failed to marshal redeemingtx notification'']\<rparr>,
                        spentNotified)
                 | Some marshalledJSON \<Rightarrow>
                     (case QueueNotification (rsClient st1) marshalledJSON of
                        (Some ErrClientQuit, c') \<Rightarrow> Return (st1\<lparr>rsClient := c'\<rparr>, spentNotified)
                      | (None, c') \<Rightarrow> rescanTxIns x tx blk rest (st1\<lparr>rsClient := c'\<rparr>, True)))
      else rescanTxIns x tx blk rest (st, spentNotified))"

text \<open>
  The type switch of \<open>rescanBlock\<close> on a payment address: \<open>Some True\<close> when the address is
  one of the rescan keys, \<open>Some False\<close> when it is not, \<open>None\<close> for a pubkey whose
  serialisation has neither 33 nor 65 bytes (skipped with a warning).
\<close>

definition rescanKeyMatch :: "externals \<Rightarrow> rescanKeys \<Rightarrow> Address \<Rightarrow> bool option" where
  "rescanKeyMatch x r a =
     (case a of
        AddressPubKeyHash h \<Rightarrow> Some (h \<in> set (pubKeyHashes r))
      | AddressScriptHash h \<Rightarrow> Some (h \<in> set (scriptHashes r))
      | AddressPubKey sa pkh \<Rightarrow>
          (if length sa = 33 then
             Some (sa \<in> set (compressedPubKeys r) \<or> pkh \<in> set (pubKeyHashes r))
           else if length sa = 65 then
             Some (sa \<in> set (uncompressedPubKeys r) \<or> pkh \<in> set (pubKeyHashes r))
           else None)
      | AddressOther str \<Rightarrow> Some (EncodeAddress x a \<in> set (fallbacks r)))"

text \<open>The addresses of output \<open>txOutIdx\<close>; the flag is \<open>recvNotified\<close>.\<close>

fun rescanTxOutAddrs ::
  "externals \<Rightarrow> Tx \<Rightarrow> Block \<Rightarrow> nat \<Rightarrow> Address list \<Rightarrow> rescanState \<times> bool
     \<Rightarrow> (rescanState \<times> bool) flow" where
  "rescanTxOutAddrs x tx blk txOutIdx [] (st, recvNotified) = Next (st, recvNotified)"
| "rescanTxOutAddrs x tx blk txOutIdx (a # rest) (st, recvNotified) =
     (case rescanKeyMatch x (lookups st) a of
        None \<Rightarrow>
          rescanTxOutAddrs x tx blk txOutIdx rest
            (st\<lparr>rsLog := rsLog st @
                   [Warnf ''Skipping rescanned pubkey of unknown serialized length'']\<rparr>,
             recvNotified)
      | Some False \<Rightarrow> rescanTxOutAddrs x tx blk txOutIdx rest (st, recvNotified)
      | Some True \<Rightarrow>
          (let outpoint = OutPoint (txSha tx) (of_nat txOutIdx);
               st1 = st\<lparr>lookups := (lookups st)\<lparr>unspent :=
                          List.insert outpoint (unspent (lookups st))\<rparr>\<rparr>
           in if recvNotified then rescanTxOutAddrs x tx blk txOutIdx rest (st1, recvNotified)
              else case MarshalCmd x (RecvTxNtfn (txHexString x tx)
                                        (blockDetails (Some blk) (txIndex tx))) of
                     None \<Rightarrow>
                       Return (st1\<lparr>rsLog := rsLog st1 @
                                     [Errorf ''Failed to marshal recvtx notification'']\<rparr>,
                               recvNotified)
                   | Some marshalledJSON \<Rightarrow>
                       (case QueueNotification (rsClient st1) marshalledJSON of
                          (Some ErrClientQuit, c') \<Rightarrow>
                            Return (st1\<lparr>rsClient := c'\<rparr>, recvNotified)
                        | (None, c') \<Rightarrow>
                            rescanTxOutAddrs x tx blk txOutIdx rest
                              (st1\<lparr>rsClient := c'\<rparr>, True))))"

text \<open>
  The outputs of one transaction. The error of \<open>ExtractPkScriptAddrs\<close> is ignored here; a
  script that does not parse has no addresses.
\<close>

fun rescanTxOuts ::
  "externals \<Rightarrow> Tx \<Rightarrow> Block \<Rightarrow> nat \<Rightarrow> TxOut list \<Rightarrow> rescanState \<times> bool
     \<Rightarrow> (rescanState \<times> bool) flow" where
  "rescanTxOuts x tx blk txOutIdx [] (st, recvNotified) = Next (st, recvNotified)"
| "rescanTxOuts x tx blk txOutIdx (txout # rest) (st, recvNotified) =
     (let addrs = (case ExtractPkScriptAddrs x (PkScript txout) of None \<Rightarrow> [] | Some as \<Rightarrow> as)
      in case rescanTxOutAddrs x tx blk txOutIdx addrs (st, recvNotified) of
           Return r \<Rightarrow> Return r
         | Next r \<Rightarrow> rescanTxOuts x tx blk (Suc txOutIdx) rest r)"

definition rescanTx :: "externals \<Rightarrow> Block \<Rightarrow> Tx \<Rightarrow> rescanState \<Rightarrow> rescanState flow" where
  "rescanTx x blk tx st =
     (case rescanTxIns x tx blk (TxIn (MsgTx tx)) (st, False) of
        Return (st1, spentNotified) \<Rightarrow> Return st1
      | Next (st1, spentNotified) \<Rightarrow>
          (case rescanTxOuts x tx blk 0 (TxOut (MsgTx tx)) (st1, False) of
             Return (st2, recvNotified) \<Rightarrow> Return st2
           | Next (st2, recvNotified) \<Rightarrow> Next st2))"

fun rescanTxs :: "externals \<Rightarrow> Block \<Rightarrow> Tx list \<Rightarrow> rescanState \<Rightarrow> rescanState flow" where
  "rescanTxs x blk [] st = Next st"
| "rescanTxs x blk (tx # rest) st =
     (case rescanTx x blk tx st of
        Return st1 \<Rightarrow> Return st1
      | Next st1 \<Rightarrow> rescanTxs x blk rest st1)"

text \<open>\<open>rescanBlock\<close> has no result: an early \<open>return\<close> and a run to the end both give the state.\<close>

definition rescanBlock :: "externals \<Rightarrow> rescanState \<Rightarrow> Block \<Rightarrow> rescanState" where
  "rescanBlock x st blk =
     (case rescanTxs x blk (Transactions blk) st of Return st1 \<Rightarrow> st1 | Next st1 \<Rightarrow> st1)"

subsection \<open>The rescan command\<close>

datatype dberr = ErrBlockShaMissing | ErrDb string

text \<open>
  The block database (package \<open>database\<close>), read as it is at the time of the call, with
  the constant \<open>database.AllShas\<close> and the text of a database error. Heights are
  \<open>int32\<close>: 32-bit words compared as signed numbers.
\<close>

record Db =
  FetchBlockHeightBySha :: "ShaHash \<Rightarrow> dberr + 32 word"
  FetchHeightRange :: "32 word \<Rightarrow> 32 word \<Rightarrow> dberr + ShaHash list"
  FetchBlockBySha :: "ShaHash \<Rightarrow> dberr + Block"
  NewestSha :: "dberr + ShaHash"
  AllShas :: "32 word"
  dbErrorText :: "dberr \<Rightarrow> string"

record jsonOutPoint =
  opHash :: string
  opIndex :: "32 word"

record RescanCmd =
  BeginBlock :: string
  Addresses :: "string list"
  OutPoints :: "jsonOutPoint list"
  EndBlock :: "string option"

datatype icmd = RescanCmdPtr RescanCmd | OtherCmdPtr

text \<open>
  Hash and address decoding (packages \<open>wire\<close> and \<open>coinutil\<close>), and the ticker: \<open>ticks n\<close>
  tells whether the ticker has fired when the progress of the \<open>n\<close>-th scanned block is
  polled.
\<close>

record rescanExternals =
  NewShaHashFromStr :: "string \<Rightarrow> ShaHash option"
  DecodeAddress :: "string \<Rightarrow> string + Address"
  ticks :: "nat \<Rightarrow> bool"

definition rpcDecodeHexError :: "string \<Rightarrow> RPCError" where
  "rpcDecodeHexError gotHex = RPCError ErrRPCDecodeHexString gotHex"

definition databaseError :: "Db \<Rightarrow> dberr \<Rightarrow> RPCError" where
  "databaseError db e = RPCError ErrRPCDatabase (''Database error: '' @ dbErrorText db e)"

definition descendantBlock :: "ShaHash \<Rightarrow> Block \<Rightarrow> RPCError option" where
  "descendantBlock prevHash curBlock =
     (if prevHash \<noteq> blkPrevBlock curBlock then Some ErrRescanReorg else None)"

definition recoverFromReorg ::
  "Db \<Rightarrow> 32 word \<Rightarrow> 32 word \<Rightarrow> ShaHash option \<Rightarrow> RPCError + ShaHash list" where
  "recoverFromReorg db minBlock maxBlock lastBlock =
     (case FetchHeightRange db minBlock maxBlock of
        Inl e \<Rightarrow> Inl (databaseError db e)
      | Inr hashList \<Rightarrow>
          (case (lastBlock, hashList) of
             (None, _) \<Rightarrow> Inr hashList
           | (_, []) \<Rightarrow> Inr hashList
           | (Some lastHash, h # _) \<Rightarrow>
               (case FetchBlockBySha db h of
                  Inl e \<Rightarrow> Inl (databaseError db e)
                | Inr blk \<Rightarrow>
                    (case descendantBlock lastHash blk of
                       Some jsonErr \<Rightarrow> Inl jsonErr
                     | None \<Rightarrow> Inr hashList))))"

text \<open>The two decoding loops at the start of \<open>handleRescan\<close>.\<close>

fun decodeOutPoints :: "rescanExternals \<Rightarrow> jsonOutPoint list \<Rightarrow> RPCError + OutPoint list" where
  "decodeOutPoints rx [] = Inr []"
| "decodeOutPoints rx (p # ps) =
     (case NewShaHashFromStr rx (opHash p) of
        None \<Rightarrow> Inl (rpcDecodeHexError (opHash p))
      | Some blockHash \<Rightarrow>
          (case decodeOutPoints rx ps of
             Inl e \<Rightarrow> Inl e
           | Inr outpoints \<Rightarrow> Inr (OutPoint blockHash (opIndex p) # outpoints)))"

fun buildLookups :: "rescanExternals \<Rightarrow> string list \<Rightarrow> rescanKeys \<Rightarrow> RPCError + rescanKeys" where
  "buildLookups rx [] r = Inr r"
| "buildLookups rx (addrStr # rest) r =
     (case DecodeAddress rx addrStr of
        Inl e \<Rightarrow>
          Inl (RPCError ErrRPCInvalidAddressOrKey (''Rescan address '' @ addrStr @ '': '' @ e))
      | Inr (AddressPubKeyHash h) \<Rightarrow>
          buildLookups rx rest (r\<lparr>pubKeyHashes := List.insert h (pubKeyHashes r)\<rparr>)
      | Inr (AddressScriptHash h) \<Rightarrow>
          buildLookups rx rest (r\<lparr>scriptHashes := List.insert h (scriptHashes r)\<rparr>)
      | Inr (AddressPubKey pubkeyBytes pkh) \<Rightarrow>
          (if length pubkeyBytes = 33 then
             buildLookups rx rest
               (r\<lparr>compressedPubKeys := List.insert pubkeyBytes (compressedPubKeys r)\<rparr>)
           else if length pubkeyBytes = 65 then
             buildLookups rx rest
               (r\<lparr>uncompressedPubKeys := List.insert pubkeyBytes (uncompressedPubKeys r)\<rparr>)
           else Inl (RPCError ErrRPCInvalidAddressOrKey
                       (''Pubkey '' @ addrStr @ '' is of unknown length'')))
      | Inr (AddressOther str) \<Rightarrow>
          buildLookups rx rest (r\<lparr>fallbacks := List.insert addrStr (fallbacks r)\<rparr>))"

text \<open>
  The local variables of the \<open>fetchRange\<close> loop. \<open>lastBlock\<close> and \<open>lastBlockHash\<close> are the
  two pointers of the source, \<open>None\<close> for \<open>nil\<close>. \<open>scanned\<close> counts the blocks scanned, for
  the ticker.
\<close>

record rescanLoop =
  rst :: rescanState
  minBlock :: "32 word"
  lastBlock :: "Block option"
  lastBlockHash :: "ShaHash option"
  scanned :: nat

text \<open>
  What \<open>handleRescan\<close> does in the end: it returns \<open>(nil, err)\<close>, or it dereferences a nil
  pointer, which panics.
\<close>

datatype rescanResult = Returned "RPCError option" | NilDereferencePanic

text \<open>How the \<open>fetchRange\<close> loop is left: by \<open>break\<close> or by \<open>return\<close>.\<close>

datatype loopExit = Break | Exit rescanResult

record rescanContext =
  cx :: externals
  crx :: rescanExternals
  cdb :: Db
  cwsc :: clientId
  ccmd :: RescanCmd
  maxBlock :: "32 word"

text \<open>
  The loops \<open>fetchRange\<close> and \<open>loopHashList\<close> as one function. The position is \<open>None\<close> at
  the head of \<open>fetchRange\<close> and \<open>Some (hashList, i)\<close> at index \<open>i\<close> of \<open>loopHashList\<close>; the
  \<open>goto\<close> enters \<open>loopHashList\<close> again at index 0 of the new list. The loop need not end
  (new blocks may keep arriving), so every iteration takes one unit of fuel and running
  out of it is \<open>None\<close>. The loop condition is tested before fuel is asked for.
\<close>

fun fetchRange ::
  "nat \<Rightarrow> rescanContext \<Rightarrow> (ShaHash list \<times> nat) option \<Rightarrow> rescanLoop
     \<Rightarrow> (loopExit \<times> rescanLoop) option" where
  "fetchRange fuel k None l =
     (if \<not> (minBlock l <s maxBlock k) then Some (Break, l)
      else case fuel of
        0 \<Rightarrow> None
      | Suc n \<Rightarrow>
          (case FetchHeightRange (cdb k) (minBlock l) (maxBlock k) of
             Inl e \<Rightarrow>
               Some (Exit (Returned (Some (databaseError (cdb k) e))),
                     l\<lparr>rst := (rst l)\<lparr>rsLog := rsLog (rst l) @
                                    [Errorf ''Error looking up block range'']\<rparr>\<rparr>)
           | Inr hashList \<Rightarrow>
               if length hashList = 0 then
                 (if maxBlock k \<noteq> AllShas (cdb k) then Some (Break, l)
                  else case NewestSha (cdb k) of
                         Inl e \<Rightarrow>
                           Some (Exit (Returned (Some (databaseError (cdb k) e))),
                                 l\<lparr>rst := (rst l)\<lparr>rsLog := rsLog (rst l) @
                                       [Errorf ''Error fetching best block hash'']\<rparr>\<rparr>)
                       | Inr curHash \<Rightarrow>
                           if lastBlockHash l = None \<or> lastBlockHash l = Some curHash then
                             Some (Break,
                                   l\<lparr>rst := (rst l)\<lparr>rsQueued := rsQueued (rst l) @
                                       [notificationRegisterSpent (cwsc k)
                                          (unspentSlice (lookups (rst l))),
                                        notificationRegisterAddr (cwsc k)
                                          (Addresses (ccmd k))]\<rparr>\<rparr>)
                           else fetchRange n k None l)
               else fetchRange n k (Some (hashList, 0)) l))"
| "fetchRange fuel k (Some (hashList, i)) l =
     (case fuel of
        0 \<Rightarrow> None
      | Suc n \<Rightarrow>
          if i \<ge> length hashList then
            fetchRange n k None (l\<lparr>minBlock := minBlock l + of_nat (length hashList)\<rparr>)
          else
            (case FetchBlockBySha (cdb k) (hashList ! i) of
               Inl e \<Rightarrow>
                 if e \<noteq> ErrBlockShaMissing then
                   Some (Exit (Returned (Some (databaseError (cdb k) e))),
                         l\<lparr>rst := (rst l)\<lparr>rsLog := rsLog (rst l) @
                               [Errorf ''Error looking up block'']\<rparr>\<rparr>)
                 else if maxBlock k \<noteq> AllShas (cdb k) then
                   Some (Exit (Returned (Some ErrRescanReorg)),
                         l\<lparr>rst := (rst l)\<lparr>rsLog := rsLog (rst l) @
                               [Errorf ''Stopping rescan for reorged block'']\<rparr>\<rparr>)
                 else
                   (let l1 = l\<lparr>minBlock := minBlock l + of_nat i\<rparr>
                    in case recoverFromReorg (cdb k) (minBlock l1) (maxBlock k)
                              (lastBlockHash l1) of
                         Inl e' \<Rightarrow> Some (Exit (Returned (Some e')), l1)
                       | Inr hashList' \<Rightarrow>
                           if length hashList' = 0 then Some (Break, l1)
                           else fetchRange n k (Some (hashList', 0)) l1)
             | Inr blk \<Rightarrow>
                 (case (if i = 0 then
                          (case lastBlockHash l of
                             None \<Rightarrow> None
                           | Some h \<Rightarrow> descendantBlock h blk)
                        else None) of
                    Some jsonErr \<Rightarrow> Some (Exit (Returned (Some jsonErr)), l)
                  | None \<Rightarrow>
                      if disconnected (rsClient (rst l)) then
                        Some (Exit (Returned None),
                              l\<lparr>rst := (rst l)\<lparr>rsLog := rsLog (rst l) @
                                    [Debugf ''Stopped rescan for disconnected client'']\<rparr>\<rparr>)
                      else
                        (let l1 = l\<lparr>rst := rescanBlock (cx k) (rst l) blk,
                                     lastBlock := Some blk,
                                     lastBlockHash := Some (blkSha blk),
                                     scanned := Suc (scanned l)\<rparr>
                         in if \<not> ticks (crx k) (scanned l) then
                              fetchRange n k (Some (hashList, Suc i)) l1
                            else
                              (case MarshalCmd (cx k)
                                      (RescanProgressNtfn (hashList ! i)
                                         (ucast (blkHeight blk)) (blkTimestamp blk)) of
                                 None \<Rightarrow>
                                   fetchRange n k (Some (hashList, Suc i))
                                     (l1\<lparr>rst := (rst l1)\<lparr>rsLog := rsLog (rst l1) @
                                         [Errorf ''Failed to marshal rescan progress notification'']\<rparr>\<rparr>)
                               | Some mn \<Rightarrow>
                                   (case QueueNotification (rsClient (rst l1)) mn of
                                      (Some ErrClientQuit, c') \<Rightarrow>
                                        Some (Exit (Returned None),
                                              l1\<lparr>rst := (rst l1)\<lparr>rsClient := c',
                                                    rsLog := rsLog (rst l1) @
                                                      [Debugf ''Stopped rescan for disconnected client'']\<rparr>\<rparr>)
                                    | (None, c') \<Rightarrow>
                                        fetchRange n k (Some (hashList, Suc i))
                                          (l1\<lparr>rst := (rst l1)\<lparr>rsClient := c'\<rparr>\<rparr>)))))))"

text \<open>
  The end of \<open>handleRescan\<close>: the \<open>rescanfinished\<close> notification is built from
  \<open>lastBlockHash.String()\<close> and \<open>lastBlock.Height()\<close>, which dereference the two pointers.
\<close>

definition rescanFinished :: "externals \<Rightarrow> rescanLoop \<Rightarrow> rescanResult \<times> rescanState" where
  "rescanFinished x l =
     (case lastBlockHash l of
        None \<Rightarrow> (NilDereferencePanic, rst l)
      | Some h \<Rightarrow>
          (case lastBlock l of
             None \<Rightarrow> (NilDereferencePanic, rst l)
           | Some b \<Rightarrow>
               (case MarshalCmd x (RescanFinishedNtfn h (ucast (blkHeight b)) (blkTimestamp b)) of
                  None \<Rightarrow>
                    (Returned None,
                     (rst l)\<lparr>rsLog := rsLog (rst l) @
                        [Errorf ''Failed to marshal rescan finished notification'',
                         Infof ''Finished rescan'']\<rparr>)
                | Some mn \<Rightarrow>
                    (Returned None,
                     (rst l)\<lparr>rsClient := snd (QueueNotification (rsClient (rst l)) mn),
                             rsLog := rsLog (rst l) @ [Infof ''Finished rescan'']\<rparr>))))"

definition emptyRescanKeys :: rescanKeys where
  "emptyRescanKeys =
     \<lparr>fallbacks = [], pubKeyHashes = [], scriptHashes = [], compressedPubKeys = [],
      uncompressedPubKeys = [], unspent = []\<rparr>"

text \<open>
  \<open>handleRescan\<close> for client \<open>wsc\<close>, whose record is \<open>c\<close>. The result is \<open>None\<close> when the
  fuel does not suffice; otherwise the outcome of the call with the client, the lookup
  keys, the log and the messages sent to the notification manager.
\<close>

definition handleRescan ::
  "nat \<Rightarrow> externals \<Rightarrow> rescanExternals \<Rightarrow> Db \<Rightarrow> clientId \<Rightarrow> wsClient \<Rightarrow> icmd
     \<Rightarrow> (rescanResult \<times> rescanState) option" where
  "handleRescan fuel x rx db wsc c ic =
     (let st0 = \<lparr>rsClient = c, lookups = emptyRescanKeys, rsLog = [], rsQueued = []\<rparr>
      in case ic of
        OtherCmdPtr \<Rightarrow> Some (Returned (Some (RPCError ErrRPCInternal [])), st0)
      | RescanCmdPtr rescanCmd \<Rightarrow>
          (case decodeOutPoints rx (OutPoints rescanCmd) of
             Inl e \<Rightarrow> Some (Returned (Some e), st0)
           | Inr outpoints \<Rightarrow>
               (let st1 = st0\<lparr>rsLog := [Infof ''Beginning rescan'']\<rparr>
                in case buildLookups rx (Addresses rescanCmd) emptyRescanKeys of
                     Inl e \<Rightarrow> Some (Returned (Some e), st1)
                   | Inr r \<Rightarrow>
                       (let st2 = st1\<lparr>lookups := r\<lparr>unspent :=
                                         foldl (\<lambda>u p. List.insert p u) (unspent r) outpoints\<rparr>\<rparr>
                        in case NewShaHashFromStr rx (BeginBlock rescanCmd) of
                             None \<Rightarrow> Some (Returned (Some (rpcDecodeHexError (BeginBlock rescanCmd))), st2)
                           | Some minBlockSha \<Rightarrow>
                               (case FetchBlockHeightBySha db minBlockSha of
                                  Inl e \<Rightarrow>
                                    Some (Returned (Some (RPCError ErrRPCBlockNotFound
                                            (''Error getting block: '' @ dbErrorText db e))), st2)
                                | Inr minB \<Rightarrow>
                                    (case (case EndBlock rescanCmd of
                                             None \<Rightarrow> Inr (AllShas db)
                                           | Some endBlock \<Rightarrow>
                                               (case NewShaHashFromStr rx endBlock of
                                                  None \<Rightarrow> Inl (rpcDecodeHexError endBlock)
                                                | Some maxBlockSha \<Rightarrow>
                                                    (case FetchBlockHeightBySha db maxBlockSha of
                                                       Inl e \<Rightarrow>
                                                         Inl (RPCError ErrRPCBlockNotFound
                                                                (''Error getting block: '' @
                                                                 dbErrorText db e))
                                                     | Inr h \<Rightarrow> Inr h))) of
                                       Inl e \<Rightarrow> Some (Returned (Some e), st2)
                                     | Inr maxB \<Rightarrow>
                                         (case fetchRange fuel
                                                 \<lparr>cx = x, crx = rx, cdb = db, cwsc = wsc,
                                                  ccmd = rescanCmd, maxBlock = maxB\<rparr>
                                                 None
                                                 \<lparr>rst = st2, minBlock = minB, lastBlock = None,
                                                  lastBlockHash = None, scanned = 0\<rparr> of
                                            None \<Rightarrow> None
                                          | Some (Exit res, l) \<Rightarrow> Some (res, rst l)
                                          | Some (Break, l) \<Rightarrow> Some (rescanFinished x l))))))))"

section \<open>Invariants of the handler state\<close>

text \<open>
  The mirror invariant: a client's \<open>spentRequests\<close> and \<open>addrRequests\<close> hold exactly the
  keys under which the handler's maps list the client.
\<close>

definition mirrorSpent :: "handlerState \<Rightarrow> bool" where
  "mirrorSpent m \<longleftrightarrow>
     (\<forall>c op. op \<in> set (spentRequests (heap m c)) \<longleftrightarrow>
        (\<exists>cmap. map_of (watchedOutPoints m) op = Some cmap \<and> c \<in> set cmap))"

definition mirrorAddr :: "handlerState \<Rightarrow> bool" where
  "mirrorAddr m \<longleftrightarrow>
     (\<forall>c a. a \<in> set (addrRequests (heap m c)) \<longleftrightarrow>
        (\<exists>cmap. map_of (watchedAddrs m) a = Some cmap \<and> c \<in> set cmap))"

text \<open>No inner map of \<open>watchedOutPoints\<close> or \<open>watchedAddrs\<close> is empty.\<close>

definition innerNonempty :: "handlerState \<Rightarrow> bool" where
  "innerNonempty m \<longleftrightarrow>
     (\<forall>op cmap. map_of (watchedOutPoints m) op = Some cmap \<longrightarrow> cmap \<noteq> []) \<and>
     (\<forall>a cmap. map_of (watchedAddrs m) a = Some cmap \<longrightarrow> cmap \<noteq> [])"

definition mirror :: "handlerState \<Rightarrow> bool" where
  "mirror m \<longleftrightarrow> mirrorSpent m \<and> mirrorAddr m"

section \<open>Concrete configurations\<close>

text \<open>
  \<open>newWebsocketClient\<close> and the maps made at the start of \<open>notificationHandler\<close>, followed by
  a small concrete world used to run the definitions.
\<close>

definition newWebsocketClient :: "string \<Rightarrow> bool \<Rightarrow> bool \<Rightarrow> wsClient" where
  "newWebsocketClient remoteAddr auth admin =
     \<lparr>disconnected = False, addr = remoteAddr, authenticated = auth, isAdmin = admin,
      verboseTxUpdates = False, addrRequests = [], spentRequests = [], ntfnChan = [],
      sendChan = []\<rparr>"

definition newHandlerState :: "(clientId \<Rightarrow> wsClient) \<Rightarrow> handlerState" where
  "newHandlerState h =
     \<lparr>clients = [], blockNotifications = [], txNotifications = [], watchedOutPoints = [],
      watchedAddrs = [], heap = h, log = []\<rparr>"

definition exExternals :: externals where
  "exExternals =
     \<lparr>ExtractPkScriptAddrs = (\<lambda>s. if s = [1] then Some [AddressPubKeyHash [1]] else None),
      EncodeAddress = (\<lambda>a. case a of AddressPubKeyHash h \<Rightarrow> ''addr1'' | _ \<Rightarrow> ''other''),
      txHexString = (\<lambda>tx. ''hex''),
      marshalFails = (\<lambda>n. False),
      createTxRawResult = (\<lambda>tx. Some ''raw'')\<rparr>"

definition exHeap :: "clientId \<Rightarrow> wsClient" where
  "exHeap = (\<lambda>c. newWebsocketClient ''client'' True True)"

definition exOutPoint :: OutPoint where
  "exOutPoint = OutPoint [7] 0"

text \<open>A transaction spending \<open>exOutPoint\<close> and paying to the script \<open>[1]\<close>, and its block.\<close>

definition exTx :: Tx where
  "exTx = \<lparr>MsgTx = \<lparr>TxIn = [\<lparr>PreviousOutPoint = exOutPoint\<rparr>],
                     TxOut = [\<lparr>Value = 100, PkScript = [1]\<rparr>]\<rparr>,
           txSha = [8], txIndex = 0\<rparr>"

definition exBlock :: Block where
  "exBlock = \<lparr>blkSha = [9], blkHeight = 100, blkTimestamp = 1700000000, blkPrevBlock = [6],
              Transactions = [exTx]\<rparr>"

text \<open>The handler state after client 1 has registered for the spending of \<open>exOutPoint\<close>.\<close>

definition exWatching :: handlerState where
  "exWatching =
     notificationHandler exExternals (newHandlerState exHeap)
       (notificationRegisterSpent 1 [exOutPoint])"

definition exServer :: rpcServer where
  "exServer = \<lparr>authsha = [1], limitauthsha = [2]\<rparr>"

text \<open>
  Message \<open>[1]\<close> is an \<open>authenticate\<close> request with an id, \<open>[2]\<close> the same request without
  an id, \<open>[3]\<close> a \<open>notifyblocks\<close> request; anything else does not parse. The credentials
  \<open>user:pass\<close> hash to the admin digest.
\<close>

definition exRpcExternals :: rpcExternals where
  "exRpcExternals =
     \<lparr>jsonUnmarshal =
        (\<lambda>m. if m = [1] then Inr \<lparr>ID = Some [49], Method = ''authenticate'', Params = []\<rparr>
              else if m = [2] then Inr \<lparr>ID = None, Method = ''authenticate'', Params = []\<rparr>
              else if m = [3] then Inr \<lparr>ID = Some [50], Method = ''notifyblocks'', Params = []\<rparr>
              else Inl ''invalid character''),
      parseCmd = (\<lambda>r. \<lparr>id = ID r, cmdMethod = Method r,
                        cmd = (if Method r = ''authenticate'' then AuthenticateCmd ''user'' ''pass''
                               else OtherCmd (Method r)),
                        err = None\<rparr>),
      base64Encode = (\<lambda>s. s),
      Sum256 = (\<lambda>s. if s = ''Basic user:pass'' then [1] else [0]),
      createMarshalledReply = (\<lambda>i r e. Some [42]),
      rpcLimited = [''help'', ''notifyblocks'', ''session''],
      dispatch = (\<lambda>c p. (c, []))\<rparr>"

definition exAuthenticated :: wsClient where
  "exAuthenticated = newWebsocketClient ''client'' True True"

text \<open>A database whose best chain ends with \<open>exBlock\<close> at height 100.\<close>

definition exRescanExternals :: rescanExternals where
  "exRescanExternals =
     \<lparr>NewShaHashFromStr = (\<lambda>s. if s = ''09'' then Some [9] else None),
      DecodeAddress = (\<lambda>s. Inl ''unknown address''),
      ticks = (\<lambda>n. False)\<rparr>"

definition exDb :: Db where
  "exDb =
     \<lparr>FetchBlockHeightBySha = (\<lambda>h. if h = [9] then Inr 100 else Inl ErrBlockShaMissing),
      FetchHeightRange = (\<lambda>lo hi. if lo \<le> 100 \<and> 100 < hi then Inr [[9]] else Inr []),
      FetchBlockBySha = (\<lambda>h. if h = [9] then Inr exBlock else Inl ErrBlockShaMissing),
      NewestSha = Inr [9],
      AllShas = 2147483647,
      dbErrorText = (\<lambda>e. ''database error'')\<rparr>"

text \<open>A rescan request whose begin block and end block are both \<open>exBlock\<close>.\<close>

definition exRescanCmd :: RescanCmd where
  "exRescanCmd = \<lparr>BeginBlock = ''09'', Addresses = [], OutPoints = [], EndBlock = Some ''09''\<rparr>"

section \<open>Specification-side definitions\<close>

text \<open>Which notifications are \<open>recvtx\<close> and which are \<open>redeemingtx\<close>.\<close>

fun isRecvTx :: "ntfn \<Rightarrow> bool" where
  "isRecvTx (RecvTxNtfn h d) = True"
| "isRecvTx n = False"

fun isRedeemingTx :: "ntfn \<Rightarrow> bool" where
  "isRedeemingTx (RedeemingTxNtfn h d) = True"
| "isRedeemingTx n = False"

text \<open>
  \<open>once j m0 wn m\<close>: compared with the state \<open>m0\<close>, every client's queue in \<open>m\<close> is
  unchanged or has grown by the single notification \<open>j\<close>, the latter only for clients in
  the set \<open>wn\<close> of clients already notified.
\<close>

definition once :: "ntfn \<Rightarrow> handlerState \<Rightarrow> clientId list \<Rightarrow> handlerState \<Rightarrow> bool" where
  "once j m0 wn m \<longleftrightarrow>
     (\<forall>c. ntfnChan (heap m c) = ntfnChan (heap m0 c) \<or>
          (c \<in> set wn \<and> ntfnChan (heap m c) = ntfnChan (heap m0 c) @ [j]))"

text \<open>
  The unspent set of a rescan written without any notification, in the words of claim C9:
  a transaction takes the previous outpoints of its inputs out of the set and puts in the
  outpoint of every output one of whose addresses is a rescan key.
\<close>

definition outputMatches :: "externals \<Rightarrow> rescanKeys \<Rightarrow> TxOut \<Rightarrow> bool" where
  "outputMatches x r txout \<longleftrightarrow>
     (\<exists>a \<in> set (case ExtractPkScriptAddrs x (PkScript txout) of None \<Rightarrow> [] | Some as \<Rightarrow> as).
        rescanKeyMatch x r a = Some True)"

fun matchingOutPoints :: "externals \<Rightarrow> rescanKeys \<Rightarrow> ShaHash \<Rightarrow> nat \<Rightarrow> TxOut list \<Rightarrow> OutPoint list" where
  "matchingOutPoints x r sha i [] = []"
| "matchingOutPoints x r sha i (txout # rest) =
     (if outputMatches x r txout then [OutPoint sha (of_nat i)] else []) @
     matchingOutPoints x r sha (Suc i) rest"

definition unspentAfterTx :: "externals \<Rightarrow> rescanKeys \<Rightarrow> OutPoint set \<Rightarrow> Tx \<Rightarrow> OutPoint set" where
  "unspentAfterTx x r u tx =
     (u - PreviousOutPoint ` set (TxIn (MsgTx tx))) \<union>
     set (matchingOutPoints x r (txSha tx) 0 (TxOut (MsgTx tx)))"

definition unspentAfterBlock :: "externals \<Rightarrow> rescanKeys \<Rightarrow> Block \<Rightarrow> OutPoint set \<Rightarrow> OutPoint set" where
  "unspentAfterBlock x r blk u = foldl (unspentAfterTx x r) u (Transactions blk)"

text \<open>Further concrete values: marshalling failures, a transaction with two inputs.\<close>

definition exRedeemFails :: externals where
  "exRedeemFails =
     exExternals\<lparr>marshalFails := (\<lambda>n. case n of RedeemingTxNtfn h d \<Rightarrow> True | _ \<Rightarrow> False)\<rparr>"

definition exTwoInputs :: Tx where
  "exTwoInputs =
     \<lparr>MsgTx = \<lparr>TxIn = [\<lparr>PreviousOutPoint = exOutPoint\<rparr>, \<lparr>PreviousOutPoint = OutPoint [7] 1\<rparr>],
               TxOut = [\<lparr>Value = 100, PkScript = [1]\<rparr>, \<lparr>Value = 200, PkScript = [1]\<rparr>]\<rparr>,
      txSha = [8], txIndex = 0\<rparr>"

definition exBlockTwoInputs :: Block where
  "exBlockTwoInputs = exBlock\<lparr>Transactions := [exTwoInputs]\<rparr>"

definition exRescanState :: "wsClient \<Rightarrow> rescanState" where
  "exRescanState c =
     \<lparr>rsClient = c,
      lookups = emptyRescanKeys\<lparr>pubKeyHashes := [[1]], unspent := [exOutPoint, OutPoint [7] 1]\<rparr>,
      rsLog = [], rsQueued = []\<rparr>"

definition exVerboseFails :: externals where
  "exVerboseFails =
     exExternals\<lparr>marshalFails := (\<lambda>n. case n of TxAcceptedVerboseNtfn r \<Rightarrow> True | _ \<Rightarrow> False)\<rparr>"

definition exCompactFails :: externals where
  "exCompactFails =
     exExternals\<lparr>marshalFails := (\<lambda>n. case n of TxAcceptedNtfn h a \<Rightarrow> True | _ \<Rightarrow> False)\<rparr>"

definition exMempoolSubscribers :: handlerState where
  "exMempoolSubscribers =
     (newHandlerState (exHeap(1 := (exHeap 1)\<lparr>verboseTxUpdates := True\<rparr>)))
       \<lparr>clients := [1, 2], txNotifications := [1, 2]\<rparr>"

text \<open>Client 1 watches both inputs of \<open>exTwoInputs\<close> and the address its outputs pay to.\<close>

definition exWatchingBoth :: handlerState where
  "exWatchingBoth =
     addAddrRequests
       (addSpentRequests (newHandlerState exHeap) 1 [exOutPoint, OutPoint [7] 1]) 1 [''addr1'']"

section \<open>Properties of the notification handler\<close>

lemma removeAll_Nil_iff: "removeAll a xs = [] \<longleftrightarrow> set xs \<subseteq> {a}"
  by (induction xs) auto

lemma rsr_heap: "heap (removeSpentRequest m wsc op) =
   (heap m)(wsc := (heap m wsc)\<lparr>spentRequests := removeAll op (spentRequests (heap m wsc))\<rparr>)"
  by (simp add: removeSpentRequest_def Let_def split: option.splits)

lemma rsr_map: "map_of (watchedOutPoints (removeSpentRequest m wsc op)) =
   (case map_of (watchedOutPoints m) op of
      None \<Rightarrow> map_of (watchedOutPoints m)
    | Some nm \<Rightarrow> if removeAll wsc nm = [] then (map_of (watchedOutPoints m))(op := None)
                 else (map_of (watchedOutPoints m))(op \<mapsto> removeAll wsc nm))"
  by (simp add: removeSpentRequest_def Let_def update_conv' delete_conv' split: option.splits)

lemma rsr_addr: "watchedAddrs (removeSpentRequest m wsc op) = watchedAddrs m"
  by (simp add: removeSpentRequest_def Let_def split: option.splits)

lemma rsr_mirror: "mirrorSpent m \<Longrightarrow> mirrorSpent (removeSpentRequest m wsc op)"
  unfolding mirrorSpent_def rsr_heap rsr_map
  by (auto simp: removeAll_Nil_iff split: option.splits if_splits)

lemma rsr_mirrorAddr: "mirrorAddr m \<Longrightarrow> mirrorAddr (removeSpentRequest m wsc op)"
  unfolding mirrorAddr_def rsr_heap rsr_addr
  by auto

lemma rar_heap: "heap (removeAddrRequest m wsc a) =
   (heap m)(wsc := (heap m wsc)\<lparr>addrRequests := removeAll a (addrRequests (heap m wsc))\<rparr>)"
  by (simp add: removeAddrRequest_def Let_def split: option.splits)

lemma rar_map: "map_of (watchedAddrs (removeAddrRequest m wsc a)) =
   (case map_of (watchedAddrs m) a of
      None \<Rightarrow> map_of (watchedAddrs m)
    | Some nm \<Rightarrow> if removeAll wsc nm = [] then (map_of (watchedAddrs m))(a := None)
                 else (map_of (watchedAddrs m))(a \<mapsto> removeAll wsc nm))"
  by (simp add: removeAddrRequest_def Let_def update_conv' delete_conv' split: option.splits)

lemma rar_ops: "watchedOutPoints (removeAddrRequest m wsc a) = watchedOutPoints m"
  by (simp add: removeAddrRequest_def Let_def split: option.splits)

lemma rar_mirror: "mirrorAddr m \<Longrightarrow> mirrorAddr (removeAddrRequest m wsc a)"
  unfolding mirrorAddr_def rar_heap rar_map
  by (auto simp: removeAll_Nil_iff split: option.splits if_splits)

lemma rar_mirrorSpent: "mirrorSpent m \<Longrightarrow> mirrorSpent (removeAddrRequest m wsc a)"
  unfolding mirrorSpent_def rar_heap rar_ops
  by auto

lemma asr_mirror: "mirrorSpent m \<Longrightarrow> mirrorSpent (addSpentRequests m wsc ops)"
proof (induction ops arbitrary: m)
  case Nil
  then show ?case by simp
next
  case (Cons op ops)
  let ?m2 = "m\<lparr>heap := (heap m)(wsc := (heap m wsc)\<lparr>spentRequests := List.insert op (spentRequests (heap m wsc))\<rparr>),
      watchedOutPoints := AList.update op (List.insert wsc (case map_of (watchedOutPoints m) op of None \<Rightarrow> [] | Some cm \<Rightarrow> cm)) (watchedOutPoints m)\<rparr>"
  have "mirrorSpent ?m2"
    using Cons.prems unfolding mirrorSpent_def
    by (auto simp: update_conv' split: option.splits; metis)
  then have "mirrorSpent (addSpentRequests ?m2 wsc ops)" by (rule Cons.IH)
  then show ?case by (simp add: Let_def)
qed

lemma asr_mirrorAddr: "mirrorAddr m \<Longrightarrow> mirrorAddr (addSpentRequests m wsc ops)"
proof (induction ops arbitrary: m)
  case Nil
  then show ?case by simp
next
  case (Cons op ops)
  let ?m2 = "m\<lparr>heap := (heap m)(wsc := (heap m wsc)\<lparr>spentRequests := List.insert op (spentRequests (heap m wsc))\<rparr>),
      watchedOutPoints := AList.update op (List.insert wsc (case map_of (watchedOutPoints m) op of None \<Rightarrow> [] | Some cm \<Rightarrow> cm)) (watchedOutPoints m)\<rparr>"
  have "mirrorAddr ?m2"
    using Cons.prems unfolding mirrorAddr_def
    by auto
  then have "mirrorAddr (addSpentRequests ?m2 wsc ops)" by (rule Cons.IH)
  then show ?case by (simp add: Let_def)
qed

lemma aar_mirror: "mirrorAddr m \<Longrightarrow> mirrorAddr (addAddrRequests m wsc as)"
proof (induction as arbitrary: m)
  case Nil
  then show ?case by simp
next
  case (Cons a as)
  let ?m2 = "m\<lparr>heap := (heap m)(wsc := (heap m wsc)\<lparr>addrRequests := List.insert a (addrRequests (heap m wsc))\<rparr>),
      watchedAddrs := AList.update a (List.insert wsc (case map_of (watchedAddrs m) a of None \<Rightarrow> [] | Some cm \<Rightarrow> cm)) (watchedAddrs m)\<rparr>"
  have "mirrorAddr ?m2"
    using Cons.prems unfolding mirrorAddr_def
    by (auto simp: update_conv' split: option.splits; metis)
  then have "mirrorAddr (addAddrRequests ?m2 wsc as)" by (rule Cons.IH)
  then show ?case by (simp add: Let_def)
qed

lemma aar_mirrorSpent: "mirrorSpent m \<Longrightarrow> mirrorSpent (addAddrRequests m wsc as)"
proof (induction as arbitrary: m)
  case Nil
  then show ?case by simp
next
  case (Cons a as)
  let ?m2 = "m\<lparr>heap := (heap m)(wsc := (heap m wsc)\<lparr>addrRequests := List.insert a (addrRequests (heap m wsc))\<rparr>),
      watchedAddrs := AList.update a (List.insert wsc (case map_of (watchedAddrs m) a of None \<Rightarrow> [] | Some cm \<Rightarrow> cm)) (watchedAddrs m)\<rparr>"
  have "mirrorSpent ?m2"
    using Cons.prems unfolding mirrorSpent_def
    by auto
  then have "mirrorSpent (addAddrRequests ?m2 wsc as)" by (rule Cons.IH)
  then show ?case by (simp add: Let_def)
qed

lemma queueTo_spent [simp]: "spentRequests (heap (queueTo m wsc j) c) = spentRequests (heap m c)"
  by (simp add: queueTo_def QueueNotification_def)
lemma queueTo_addrR [simp]: "addrRequests (heap (queueTo m wsc j) c) = addrRequests (heap m c)"
  by (simp add: queueTo_def QueueNotification_def)
lemma queueTo_ops [simp]: "watchedOutPoints (queueTo m wsc j) = watchedOutPoints m"
  by (simp add: queueTo_def)
lemma queueTo_addrs [simp]: "watchedAddrs (queueTo m wsc j) = watchedAddrs m"
  by (simp add: queueTo_def)

lemma queueTo_mirror: "mirror m \<Longrightarrow> mirror (queueTo m wsc j)"
  by (simp add: mirror_def mirrorSpent_def mirrorAddr_def)

lemma log_mirror: "mirror m \<Longrightarrow> mirror (m\<lparr>log := l\<rparr>)"
  by (simp add: mirror_def mirrorSpent_def mirrorAddr_def)


lemma rsr_mirror': "mirror m \<Longrightarrow> mirror (removeSpentRequest m wsc op)"
  by (simp add: mirror_def rsr_mirror rsr_mirrorAddr)
lemma rar_mirror': "mirror m \<Longrightarrow> mirror (removeAddrRequest m wsc a)"
  by (simp add: mirror_def rar_mirror rar_mirrorSpent)
lemma asr_mirror': "mirror m \<Longrightarrow> mirror (addSpentRequests m wsc ops)"
  by (simp add: mirror_def asr_mirror asr_mirrorAddr)
lemma aar_mirror': "mirror m \<Longrightarrow> mirror (addAddrRequests m wsc as)"
  by (simp add: mirror_def aar_mirror aar_mirrorSpent)

lemma tic_mirror:
  "mirror m \<Longrightarrow> mirror (fst (notifyTxInClients po j b cs (m, wn)))"
proof (induction cs arbitrary: m wn)
  case Nil
  then show ?case by simp
next
  case (Cons c cs)
  let ?m1 = "if b \<noteq> None then removeSpentRequest m c po else m"
  have m1: "mirror ?m1" using Cons.prems by (simp add: rsr_mirror')
  show ?case
  proof (cases "c \<in> set wn")
    case True
    then show ?thesis using Cons.IH [OF m1] by (simp add: Let_def)
  next
    case False
    then show ?thesis using Cons.IH [OF queueTo_mirror [OF m1]] by (simp add: Let_def)
  qed
qed

lemma ti_mirror:
  "mirror m \<Longrightarrow> mirror (fst (notifyTxIns x tx b ins (m, wn)))"
proof (induction ins arbitrary: m wn)
  case Nil
  then show ?case by simp
next
  case (Cons i ins)
  show ?case
  proof (cases "map_of (watchedOutPoints m) (PreviousOutPoint i)")
    case None
    then show ?thesis using Cons by simp
  next
    case (Some cmap)
    show ?thesis
    proof (cases "newRedeemingTxNotification x (txHexString x tx) (txIndex tx) b")
      case None
      then show ?thesis using Some Cons.IH [OF log_mirror [OF Cons.prems]] by simp
    next
      case (Some j)
      obtain m' wn' where r: "notifyTxInClients (PreviousOutPoint i) j b cmap (m, wn) = (m', wn')"
        by (cases "notifyTxInClients (PreviousOutPoint i) j b cmap (m, wn)")
      have "mirror m'" using tic_mirror [OF Cons.prems, of "PreviousOutPoint i" j b cmap wn] r by simp
      then show ?thesis using Some \<open>map_of (watchedOutPoints m) (PreviousOutPoint i) = Some cmap\<close> r Cons.IH by simp
    qed
  qed
qed

lemma nfti_mirror: "mirror m \<Longrightarrow> mirror (notifyForTxIns x m tx b)"
  by (simp add: notifyForTxIns_def ti_mirror)

lemma toc_mirror:
  "mirror m \<Longrightarrow> mirror (fst (notifyTxOutClients op j cs (m, wn)))"
proof (induction cs arbitrary: m wn)
  case Nil
  then show ?case by simp
next
  case (Cons c cs)
  have m1: "mirror (addSpentRequests m c [op])" using Cons.prems by (rule asr_mirror')
  show ?case
  proof (cases "c \<in> set wn")
    case True
    then show ?thesis using Cons.IH [OF m1] by (simp add: Let_def del: addSpentRequests.simps)
  next
    case False
    then show ?thesis using Cons.IH [OF queueTo_mirror [OF m1]] by (simp add: Let_def del: addSpentRequests.simps)
  qed
qed

lemma toa_mirror:
  "mirror m \<Longrightarrow> mirror (fst (notifyTxOutAddrs x tx b i as (m, wn)))"
proof (induction as arbitrary: m wn)
  case Nil
  then show ?case by simp
next
  case (Cons a as)
  show ?case
  proof (cases "map_of (watchedAddrs m) (EncodeAddress x a)")
    case None
    then show ?thesis using Cons by simp
  next
    case (Some cmap)
    note cm = this
    show ?thesis
    proof (cases "MarshalCmd x (RecvTxNtfn (txHexString x tx) (blockDetails b (txIndex tx)))")
      case None
      then show ?thesis using cm Cons.IH [OF log_mirror [OF Cons.prems]] by simp
    next
      case (Some j)
      obtain m' wn' where r: "notifyTxOutClients (OutPoint (txSha tx) (of_nat i)) j cmap (m, wn) = (m', wn')"
        by (cases "notifyTxOutClients (OutPoint (txSha tx) (of_nat i)) j cmap (m, wn)")
      have "mirror m'" using toc_mirror [OF Cons.prems, of "OutPoint (txSha tx) (of_nat i)" j cmap wn] r by simp
      then show ?thesis using Some cm r Cons.IH by simp
    qed
  qed
qed

lemma to_mirror:
  "mirror m \<Longrightarrow> mirror (fst (notifyTxOuts x tx b i outs (m, wn)))"
proof (induction outs arbitrary: m wn i)
  case Nil
  then show ?case by simp
next
  case (Cons out outs)
  show ?case
  proof (cases "ExtractPkScriptAddrs x (PkScript out)")
    case None
    then show ?thesis using Cons by simp
  next
    case (Some as)
    obtain m' wn' where r: "notifyTxOutAddrs x tx b i as (m, wn) = (m', wn')"
      by (cases "notifyTxOutAddrs x tx b i as (m, wn)")
    have "mirror m'" using toa_mirror [OF Cons.prems, of x tx b i as wn] r by simp
    then show ?thesis using Some r Cons.IH by simp
  qed
qed

lemma nfto_mirror: "mirror m \<Longrightarrow> mirror (notifyForTxOuts x m tx b)"
  by (simp add: notifyForTxOuts_def to_mirror)

lemma nft_mirror: "mirror m \<Longrightarrow> mirror (notifyForTx x m tx b)"
  by (simp add: notifyForTx_def Let_def nfti_mirror nfto_mirror)

lemma foldl_inv:
  assumes "P m" and "\<And>m' y. P m' \<Longrightarrow> P (f m' y)"
  shows "P (foldl f m ys)"
  using assms(1) by (induction ys arbitrary: m) (auto intro: assms(2))

lemma nbc_mirror: "mirror m \<Longrightarrow> mirror (notifyBlockConnected x m b)"
  by (auto simp: notifyBlockConnected_def log_mirror split: option.splits
           intro!: foldl_inv [where P = mirror] queueTo_mirror)

lemma nbd_mirror: "mirror m \<Longrightarrow> mirror (notifyBlockDisconnected x m b)"
  by (auto simp: notifyBlockDisconnected_def log_mirror split: option.splits
           intro!: foldl_inv [where P = mirror] queueTo_mirror)

lemma nntc_mirror: "mirror m \<Longrightarrow> mirror (notifyNewTxClients x tx j cs v m)"
proof (induction cs arbitrary: m v)
  case Nil
  then show ?case by simp
next
  case (Cons c cs)
  then show ?case
    by (auto simp: log_mirror queueTo_mirror split: option.splits)
qed

lemma nfnt_mirror: "mirror m \<Longrightarrow> mirror (notifyForNewTx x m tx)"
  by (auto simp: notifyForNewTx_def Let_def log_mirror nntc_mirror split: option.splits)

lemma fields_mirror:
  "mirror m \<Longrightarrow> mirror (m\<lparr>clients := a\<rparr>)"
  "mirror m \<Longrightarrow> mirror (m\<lparr>blockNotifications := a\<rparr>)"
  "mirror m \<Longrightarrow> mirror (m\<lparr>txNotifications := a\<rparr>)"
  by (simp_all add: mirror_def mirrorSpent_def mirrorAddr_def)

text \<open>
  Claim C3. Between two messages of the notification handler the mirror invariant holds:
  for every client and every outpoint, the outpoint is in the client's \<open>spentRequests\<close>
  exactly when the client is in \<open>watchedOutPoints\<close> under that outpoint, and the same for
  \<open>addrRequests\<close> and \<open>watchedAddrs\<close>. Every message (register, unregister, client
  unregister, block and transaction events) preserves it.
\<close>

theorem notificationHandler_preserves_mirror:
  "mirror m \<Longrightarrow> mirror (notificationHandler x m n)"
proof (cases n)
  case (notificationBlockConnected b)
  have "mirror (foldl (\<lambda>m' tx. notifyForTx x m' tx (Some b)) m (Transactions b))"
    if "mirror m" using that by (rule foldl_inv) (rule nft_mirror)
  then show ?thesis if "mirror m" using that notificationBlockConnected
    by (simp add: Let_def nbc_mirror)
next
  case (notificationUnregisterClient wsc)
  let ?m1 = "m\<lparr>blockNotifications := removeAll wsc (blockNotifications m),
                  txNotifications := removeAll wsc (txNotifications m)\<rparr>"
  let ?m2 = "foldl (\<lambda>m' k. removeSpentRequest m' wsc k) ?m1 (spentRequests (heap ?m1 wsc))"
  let ?m3 = "foldl (\<lambda>m' a. removeAddrRequest m' wsc a) ?m2 (addrRequests (heap ?m2 wsc))"
  assume "mirror m"
  then have "mirror ?m1" by (simp add: fields_mirror)
  then have "mirror ?m2" by (rule foldl_inv) (rule rsr_mirror')
  then have "mirror ?m3" by (rule foldl_inv) (rule rar_mirror')
  then show ?thesis using notificationUnregisterClient
    by (simp add: Let_def fields_mirror)
qed (simp_all add: nbd_mirror nfnt_mirror nft_mirror fields_mirror rsr_mirror' rar_mirror'
       asr_mirror' aar_mirror' log_mirror Let_def)


subsection \<open>Inner maps are never empty\<close>

text \<open>
  The handler keeps a second invariant, used below as a hypothesis: no key of
  \<open>watchedOutPoints\<close> or \<open>watchedAddrs\<close> has an empty map of clients. Both invariants hold
  in the state the handler starts from, with clients as \<open>newWebsocketClient\<close> makes them.
\<close>

lemma rsr_inner: "innerNonempty m \<Longrightarrow> innerNonempty (removeSpentRequest m wsc op)"
  unfolding innerNonempty_def rsr_map rsr_addr
  by (auto split: option.splits if_splits)

lemma rar_inner: "innerNonempty m \<Longrightarrow> innerNonempty (removeAddrRequest m wsc a)"
  unfolding innerNonempty_def rar_map rar_ops
  by (auto split: option.splits if_splits)

lemma asr_inner: "innerNonempty m \<Longrightarrow> innerNonempty (addSpentRequests m wsc ops)"
proof (induction ops arbitrary: m)
  case Nil
  then show ?case by simp
next
  case (Cons op ops)
  let ?m2 = "m\<lparr>heap := (heap m)(wsc := (heap m wsc)\<lparr>spentRequests := List.insert op (spentRequests (heap m wsc))\<rparr>),
      watchedOutPoints := AList.update op (List.insert wsc (case map_of (watchedOutPoints m) op of None \<Rightarrow> [] | Some cm \<Rightarrow> cm)) (watchedOutPoints m)\<rparr>"
  have "innerNonempty ?m2"
    using Cons.prems unfolding innerNonempty_def
    by (auto simp: update_conv' List.insert_def split: option.splits if_splits)
  then have "innerNonempty (addSpentRequests ?m2 wsc ops)" by (rule Cons.IH)
  then show ?case by (simp add: Let_def)
qed

lemma aar_inner: "innerNonempty m \<Longrightarrow> innerNonempty (addAddrRequests m wsc as)"
proof (induction as arbitrary: m)
  case Nil
  then show ?case by simp
next
  case (Cons a as)
  let ?m2 = "m\<lparr>heap := (heap m)(wsc := (heap m wsc)\<lparr>addrRequests := List.insert a (addrRequests (heap m wsc))\<rparr>),
      watchedAddrs := AList.update a (List.insert wsc (case map_of (watchedAddrs m) a of None \<Rightarrow> [] | Some cm \<Rightarrow> cm)) (watchedAddrs m)\<rparr>"
  have "innerNonempty ?m2"
    using Cons.prems unfolding innerNonempty_def
    by (auto simp: update_conv' List.insert_def split: option.splits if_splits)
  then have "innerNonempty (addAddrRequests ?m2 wsc as)" by (rule Cons.IH)
  then show ?case by (simp add: Let_def)
qed

lemma queueTo_inner: "innerNonempty m \<Longrightarrow> innerNonempty (queueTo m wsc j)"
  by (simp add: innerNonempty_def)

lemma log_inner: "innerNonempty m \<Longrightarrow> innerNonempty (m\<lparr>log := l\<rparr>)"
  by (simp add: innerNonempty_def)

lemma tic_inner:
  "innerNonempty m \<Longrightarrow> innerNonempty (fst (notifyTxInClients po j b cs (m, wn)))"
proof (induction cs arbitrary: m wn)
  case Nil
  then show ?case by simp
next
  case (Cons c cs)
  let ?m1 = "if b \<noteq> None then removeSpentRequest m c po else m"
  have m1: "innerNonempty ?m1" using Cons.prems by (simp add: rsr_inner)
  show ?case
  proof (cases "c \<in> set wn")
    case True
    then show ?thesis using Cons.IH [OF m1] by (simp add: Let_def)
  next
    case False
    then show ?thesis using Cons.IH [OF queueTo_inner [OF m1]] by (simp add: Let_def)
  qed
qed

lemma ti_inner:
  "innerNonempty m \<Longrightarrow> innerNonempty (fst (notifyTxIns x tx b ins (m, wn)))"
proof (induction ins arbitrary: m wn)
  case Nil
  then show ?case by simp
next
  case (Cons i ins)
  show ?case
  proof (cases "map_of (watchedOutPoints m) (PreviousOutPoint i)")
    case None
    then show ?thesis using Cons by simp
  next
    case (Some cmap)
    show ?thesis
    proof (cases "newRedeemingTxNotification x (txHexString x tx) (txIndex tx) b")
      case None
      then show ?thesis using Some Cons.IH [OF log_inner [OF Cons.prems]] by simp
    next
      case (Some j)
      obtain m' wn' where r: "notifyTxInClients (PreviousOutPoint i) j b cmap (m, wn) = (m', wn')"
        by (cases "notifyTxInClients (PreviousOutPoint i) j b cmap (m, wn)")
      have "innerNonempty m'" using tic_inner [OF Cons.prems, of "PreviousOutPoint i" j b cmap wn] r by simp
      then show ?thesis using Some \<open>map_of (watchedOutPoints m) (PreviousOutPoint i) = Some cmap\<close> r Cons.IH by simp
    qed
  qed
qed

lemma nfti_inner: "innerNonempty m \<Longrightarrow> innerNonempty (notifyForTxIns x m tx b)"
  by (simp add: notifyForTxIns_def ti_inner)

lemma toc_inner:
  "innerNonempty m \<Longrightarrow> innerNonempty (fst (notifyTxOutClients op j cs (m, wn)))"
proof (induction cs arbitrary: m wn)
  case Nil
  then show ?case by simp
next
  case (Cons c cs)
  have m1: "innerNonempty (addSpentRequests m c [op])" using Cons.prems by (rule asr_inner)
  show ?case
  proof (cases "c \<in> set wn")
    case True
    then show ?thesis using Cons.IH [OF m1] by (simp add: Let_def del: addSpentRequests.simps)
  next
    case False
    then show ?thesis using Cons.IH [OF queueTo_inner [OF m1]] by (simp add: Let_def del: addSpentRequests.simps)
  qed
qed

lemma toa_inner:
  "innerNonempty m \<Longrightarrow> innerNonempty (fst (notifyTxOutAddrs x tx b i as (m, wn)))"
proof (induction as arbitrary: m wn)
  case Nil
  then show ?case by simp
next
  case (Cons a as)
  show ?case
  proof (cases "map_of (watchedAddrs m) (EncodeAddress x a)")
    case None
    then show ?thesis using Cons by simp
  next
    case (Some cmap)
    note cm = this
    show ?thesis
    proof (cases "MarshalCmd x (RecvTxNtfn (txHexString x tx) (blockDetails b (txIndex tx)))")
      case None
      then show ?thesis using cm Cons.IH [OF log_inner [OF Cons.prems]] by simp
    next
      case (Some j)
      obtain m' wn' where r: "notifyTxOutClients (OutPoint (txSha tx) (of_nat i)) j cmap (m, wn) = (m', wn')"
        by (cases "notifyTxOutClients (OutPoint (txSha tx) (of_nat i)) j cmap (m, wn)")
      have "innerNonempty m'" using toc_inner [OF Cons.prems, of "OutPoint (txSha tx) (of_nat i)" j cmap wn] r by simp
      then show ?thesis using Some cm r Cons.IH by simp
    qed
  qed
qed

lemma to_inner:
  "innerNonempty m \<Longrightarrow> innerNonempty (fst (notifyTxOuts x tx b i outs (m, wn)))"
proof (induction outs arbitrary: m wn i)
  case Nil
  then show ?case by simp
next
  case (Cons out outs)
  show ?case
  proof (cases "ExtractPkScriptAddrs x (PkScript out)")
    case None
    then show ?thesis using Cons by simp
  next
    case (Some as)
    obtain m' wn' where r: "notifyTxOutAddrs x tx b i as (m, wn) = (m', wn')"
      by (cases "notifyTxOutAddrs x tx b i as (m, wn)")
    have "innerNonempty m'" using toa_inner [OF Cons.prems, of x tx b i as wn] r by simp
    then show ?thesis using Some r Cons.IH by simp
  qed
qed

lemma nfto_inner: "innerNonempty m \<Longrightarrow> innerNonempty (notifyForTxOuts x m tx b)"
  by (simp add: notifyForTxOuts_def to_inner)

lemma nft_inner: "innerNonempty m \<Longrightarrow> innerNonempty (notifyForTx x m tx b)"
  by (simp add: notifyForTx_def Let_def nfti_inner nfto_inner)

lemma nbc_inner: "innerNonempty m \<Longrightarrow> innerNonempty (notifyBlockConnected x m b)"
  by (auto simp: notifyBlockConnected_def log_inner split: option.splits
           intro!: foldl_inv [where P = innerNonempty] queueTo_inner)

lemma nbd_inner: "innerNonempty m \<Longrightarrow> innerNonempty (notifyBlockDisconnected x m b)"
  by (auto simp: notifyBlockDisconnected_def log_inner split: option.splits
           intro!: foldl_inv [where P = innerNonempty] queueTo_inner)

lemma nntc_inner: "innerNonempty m \<Longrightarrow> innerNonempty (notifyNewTxClients x tx j cs v m)"
proof (induction cs arbitrary: m v)
  case Nil
  then show ?case by simp
next
  case (Cons c cs)
  then show ?case
    by (auto simp: log_inner queueTo_inner split: option.splits)
qed

lemma nfnt_inner: "innerNonempty m \<Longrightarrow> innerNonempty (notifyForNewTx x m tx)"
  by (auto simp: notifyForNewTx_def Let_def log_inner nntc_inner split: option.splits)

lemma fields_inner:
  "innerNonempty m \<Longrightarrow> innerNonempty (m\<lparr>clients := a\<rparr>)"
  "innerNonempty m \<Longrightarrow> innerNonempty (m\<lparr>blockNotifications := a\<rparr>)"
  "innerNonempty m \<Longrightarrow> innerNonempty (m\<lparr>txNotifications := a\<rparr>)"
  by (simp_all add: innerNonempty_def)

lemma notificationHandler_preserves_innerNonempty:
  "innerNonempty m \<Longrightarrow> innerNonempty (notificationHandler x m n)"
proof (cases n)
  case (notificationBlockConnected b)
  have "innerNonempty (foldl (\<lambda>m' tx. notifyForTx x m' tx (Some b)) m (Transactions b))"
    if "innerNonempty m" using that by (rule foldl_inv) (rule nft_inner)
  then show ?thesis if "innerNonempty m" using that notificationBlockConnected
    by (simp add: Let_def nbc_inner)
next
  case (notificationUnregisterClient wsc)
  let ?m1 = "m\<lparr>blockNotifications := removeAll wsc (blockNotifications m),
                  txNotifications := removeAll wsc (txNotifications m)\<rparr>"
  let ?m2 = "foldl (\<lambda>m' k. removeSpentRequest m' wsc k) ?m1 (spentRequests (heap ?m1 wsc))"
  let ?m3 = "foldl (\<lambda>m' a. removeAddrRequest m' wsc a) ?m2 (addrRequests (heap ?m2 wsc))"
  assume "innerNonempty m"
  then have "innerNonempty ?m1" by (simp add: fields_inner)
  then have "innerNonempty ?m2" by (rule foldl_inv) (rule rsr_inner)
  then have "innerNonempty ?m3" by (rule foldl_inv) (rule rar_inner)
  then show ?thesis using notificationUnregisterClient
    by (simp add: Let_def fields_inner)
qed (simp_all add: nbd_inner nfnt_inner nft_inner fields_inner rsr_inner rar_inner
       asr_inner aar_inner log_inner Let_def)



lemma newHandlerState_invariants:
  "(\<forall>c. spentRequests (h c) = [] \<and> addrRequests (h c) = []) \<Longrightarrow>
   mirror (newHandlerState h) \<and> innerNonempty (newHandlerState h)"
  by (simp add: mirror_def mirrorSpent_def mirrorAddr_def innerNonempty_def newHandlerState_def)

subsection \<open>One-shot spent requests\<close>














lemma rsr_disc [simp]: "disconnected (heap (removeSpentRequest m c po) c') = disconnected (heap m c')"
  by (simp add: rsr_heap)
lemma rsr_ntfn [simp]: "ntfnChan (heap (removeSpentRequest m c po) c') = ntfnChan (heap m c')"
  by (simp add: rsr_heap)
lemma queueTo_disc [simp]: "disconnected (heap (queueTo m c j) c') = disconnected (heap m c')"
  by (simp add: queueTo_def QueueNotification_def)







theorem notificationHandler_preserves_mirror_witness:
  "mirror (newHandlerState exHeap) \<and> mirror exWatching \<and>
   mirror (notificationHandler exExternals exWatching (notificationBlockConnected exBlock))"
proof -
  have h0: "mirror (newHandlerState exHeap)"
    by (simp add: mirror_def mirrorSpent_def mirrorAddr_def newHandlerState_def exHeap_def
          newWebsocketClient_def)
  have h1: "mirror exWatching"
    unfolding exWatching_def using h0 by (rule notificationHandler_preserves_mirror)
  have h2: "mirror (notificationHandler exExternals exWatching (notificationBlockConnected exBlock))"
    using h1 by (rule notificationHandler_preserves_mirror)
  from h0 h1 h2 show ?thesis by blast
qed




subsection \<open>Register followed by unregister\<close>

lemma rec_triv_spent: "c\<lparr>spentRequests := spentRequests c\<rparr> = (c::wsClient)" by simp
lemma rec_triv_addr: "c\<lparr>addrRequests := addrRequests c\<rparr> = (c::wsClient)" by simp










subsection \<open>At most one notification of a kind per transaction\<close>

lemma queueTo_ntfn': "ntfnChan (heap (queueTo m c j) c') =
   (if c' = c \<and> \<not> disconnected (heap m c) then ntfnChan (heap m c) @ [j] else ntfnChan (heap m c'))"
  by (simp add: queueTo_def QueueNotification_def Disconnected_def)

lemma asr_disc: "disconnected (heap (addSpentRequests m c ops) c') = disconnected (heap m c')"
  by (induction ops arbitrary: m) (simp_all add: Let_def)

lemma asr_ntfn: "ntfnChan (heap (addSpentRequests m c ops) c') = ntfnChan (heap m c')"
  by (induction ops arbitrary: m) (simp_all add: Let_def)

lemma once_step:
  assumes "once j m0 wn m" and "\<forall>c'. ntfnChan (heap m1 c') = ntfnChan (heap m c')"
    and "disconnected (heap m1 c) = disconnected (heap m c)"
  shows "c \<in> set wn \<Longrightarrow> once j m0 wn m1"
    and "c \<notin> set wn \<Longrightarrow> once j m0 (List.insert c wn) (queueTo m1 c j)"
  using assms unfolding once_def by (auto simp: queueTo_ntfn')

lemma tic_once:
  "once j m0 wn m \<Longrightarrow> once j m0 (snd (notifyTxInClients po j b cs (m, wn)))
                                  (fst (notifyTxInClients po j b cs (m, wn)))"
proof (induction cs arbitrary: m wn)
  case Nil
  then show ?case by simp
next
  case (Cons c cs)
  let ?m1 = "if b \<noteq> None then removeSpentRequest m c po else m"
  have q: "\<forall>c'. ntfnChan (heap ?m1 c') = ntfnChan (heap m c')" by simp
  have d: "disconnected (heap ?m1 c) = disconnected (heap m c)" by simp
  show ?case
  proof (cases "c \<in> set wn")
    case True
    from Cons.IH [OF once_step(1) [OF Cons.prems q d True]] True
    show ?thesis by (simp add: Let_def)
  next
    case False
    from Cons.IH [OF once_step(2) [OF Cons.prems q d False]] False
    show ?thesis by (simp add: Let_def)
  qed
qed

lemma once_log: "once j m0 wn m \<Longrightarrow> once j m0 wn (m\<lparr>log := l\<rparr>)"
  by (simp add: once_def)

lemma ti_once:
  "once (RedeemingTxNtfn (txHexString x tx) (blockDetails b (txIndex tx))) m0 wn m \<Longrightarrow>
   once (RedeemingTxNtfn (txHexString x tx) (blockDetails b (txIndex tx))) m0
     (snd (notifyTxIns x tx b ins (m, wn))) (fst (notifyTxIns x tx b ins (m, wn)))"
proof (induction ins arbitrary: m wn)
  case Nil
  then show ?case by simp
next
  case (Cons i ins)
  let ?j = "RedeemingTxNtfn (txHexString x tx) (blockDetails b (txIndex tx))"
  show ?case
  proof (cases "map_of (watchedOutPoints m) (PreviousOutPoint i)")
    case None
    then show ?thesis using Cons.IH [OF Cons.prems] by simp
  next
    case (Some cmap)
    show ?thesis
    proof (cases "marshalFails x ?j")
      case True
      then show ?thesis using Some Cons.IH [OF once_log [OF Cons.prems]]
        by (simp add: newRedeemingTxNotification_def MarshalCmd_def)
    next
      case False
      obtain m' wn' where r: "notifyTxInClients (PreviousOutPoint i) ?j b cmap (m, wn) = (m', wn')"
        by (cases "notifyTxInClients (PreviousOutPoint i) ?j b cmap (m, wn)")
      have "once ?j m0 wn' m'" using tic_once [OF Cons.prems, of "PreviousOutPoint i" b cmap] r by simp
      from Cons.IH [OF this] show ?thesis using Some False r
        by (simp add: newRedeemingTxNotification_def MarshalCmd_def)
    qed
  qed
qed

lemma toc_once:
  "once j m0 wn m \<Longrightarrow> once j m0 (snd (notifyTxOutClients op j cs (m, wn)))
                                  (fst (notifyTxOutClients op j cs (m, wn)))"
proof (induction cs arbitrary: m wn)
  case Nil
  then show ?case by simp
next
  case (Cons c cs)
  let ?m1 = "addSpentRequests m c [op]"
  have q: "\<forall>c'. ntfnChan (heap ?m1 c') = ntfnChan (heap m c')"
    by (rule allI) (rule asr_ntfn)
  have d: "disconnected (heap ?m1 c) = disconnected (heap m c)" by (rule asr_disc)
  show ?case
  proof (cases "c \<in> set wn")
    case True
    from Cons.IH [OF once_step(1) [OF Cons.prems q d True]] True
    show ?thesis by (simp add: Let_def del: addSpentRequests.simps)
  next
    case False
    from Cons.IH [OF once_step(2) [OF Cons.prems q d False]] False
    show ?thesis by (simp add: Let_def del: addSpentRequests.simps)
  qed
qed

lemma toa_once:
  "once (RecvTxNtfn (txHexString x tx) (blockDetails b (txIndex tx))) m0 wn m \<Longrightarrow>
   once (RecvTxNtfn (txHexString x tx) (blockDetails b (txIndex tx))) m0
     (snd (notifyTxOutAddrs x tx b i as (m, wn))) (fst (notifyTxOutAddrs x tx b i as (m, wn)))"
proof (induction as arbitrary: m wn)
  case Nil
  then show ?case by simp
next
  case (Cons a as)
  let ?j = "RecvTxNtfn (txHexString x tx) (blockDetails b (txIndex tx))"
  show ?case
  proof (cases "map_of (watchedAddrs m) (EncodeAddress x a)")
    case None
    then show ?thesis using Cons.IH [OF Cons.prems] by simp
  next
    case (Some cmap)
    show ?thesis
    proof (cases "marshalFails x ?j")
      case True
      then show ?thesis using Some Cons.IH [OF once_log [OF Cons.prems]]
        by (simp add: MarshalCmd_def)
    next
      case False
      obtain m' wn' where r: "notifyTxOutClients (OutPoint (txSha tx) (of_nat i)) ?j cmap (m, wn) = (m', wn')"
        by (cases "notifyTxOutClients (OutPoint (txSha tx) (of_nat i)) ?j cmap (m, wn)")
      have "once ?j m0 wn' m'"
        using toc_once [OF Cons.prems, of "OutPoint (txSha tx) (of_nat i)" cmap] r by simp
      from Cons.IH [OF this] show ?thesis using Some False r
        by (simp add: MarshalCmd_def)
    qed
  qed
qed

lemma to_once:
  "once (RecvTxNtfn (txHexString x tx) (blockDetails b (txIndex tx))) m0 wn m \<Longrightarrow>
   once (RecvTxNtfn (txHexString x tx) (blockDetails b (txIndex tx))) m0
     (snd (notifyTxOuts x tx b i outs (m, wn))) (fst (notifyTxOuts x tx b i outs (m, wn)))"
proof (induction outs arbitrary: m wn i)
  case Nil
  then show ?case by simp
next
  case (Cons out outs)
  show ?case
  proof (cases "ExtractPkScriptAddrs x (PkScript out)")
    case None
    then show ?thesis using Cons.IH [OF Cons.prems] by simp
  next
    case (Some as)
    obtain m' wn' where r: "notifyTxOutAddrs x tx b i as (m, wn) = (m', wn')"
      by (cases "notifyTxOutAddrs x tx b i as (m, wn)")
    have "once (RecvTxNtfn (txHexString x tx) (blockDetails b (txIndex tx))) m0 wn' m'"
      using toa_once [OF Cons.prems, of i as] r by simp
    from Cons.IH [OF this] show ?thesis using Some r by simp
  qed
qed

lemma once_refl: "once j m [] m"
  by (simp add: once_def)

lemma nfti_once:
  "ntfnChan (heap (notifyForTxIns x m tx b) c) = ntfnChan (heap m c) \<or>
   ntfnChan (heap (notifyForTxIns x m tx b) c) =
     ntfnChan (heap m c) @ [RedeemingTxNtfn (txHexString x tx) (blockDetails b (txIndex tx))]"
  using ti_once [OF once_refl, of x tx b m "TxIn (MsgTx tx)"]
  by (auto simp: notifyForTxIns_def once_def)

lemma nfto_once:
  "ntfnChan (heap (notifyForTxOuts x m tx b) c) = ntfnChan (heap m c) \<or>
   ntfnChan (heap (notifyForTxOuts x m tx b) c) =
     ntfnChan (heap m c) @ [RecvTxNtfn (txHexString x tx) (blockDetails b (txIndex tx))]"
  using to_once [OF once_refl, of x tx b m 0 "TxOut (MsgTx tx)"]
  by (auto simp: notifyForTxOuts_def once_def)

lemma nft_once:
  "\<exists>e1 e2. ntfnChan (heap (notifyForTx x m tx b) c) = ntfnChan (heap m c) @ e1 @ e2 \<and>
     (e1 = [] \<or> e1 = [RedeemingTxNtfn (txHexString x tx) (blockDetails b (txIndex tx))]) \<and>
     (e2 = [] \<or> e2 = [RecvTxNtfn (txHexString x tx) (blockDetails b (txIndex tx))])"
proof -
  let ?m1 = "if length (watchedOutPoints m) \<noteq> 0 then notifyForTxIns x m tx b else m"
  let ?m2 = "if length (watchedAddrs ?m1) \<noteq> 0 then notifyForTxOuts x ?m1 tx b else ?m1"
  have "ntfnChan (heap ?m1 c) = ntfnChan (heap m c) \<or>
        ntfnChan (heap ?m1 c) = ntfnChan (heap m c) @
          [RedeemingTxNtfn (txHexString x tx) (blockDetails b (txIndex tx))]"
    using nfti_once [of x m tx b c] by simp
  then obtain e1 where e1: "ntfnChan (heap ?m1 c) = ntfnChan (heap m c) @ e1"
    "e1 = [] \<or> e1 = [RedeemingTxNtfn (txHexString x tx) (blockDetails b (txIndex tx))]"
    by fastforce
  have "ntfnChan (heap ?m2 c) = ntfnChan (heap ?m1 c) \<or>
        ntfnChan (heap ?m2 c) = ntfnChan (heap ?m1 c) @
          [RecvTxNtfn (txHexString x tx) (blockDetails b (txIndex tx))]"
    using nfto_once [of x ?m1 tx b c] by simp
  then obtain e2 where e2: "ntfnChan (heap ?m2 c) = ntfnChan (heap ?m1 c) @ e2"
    "e2 = [] \<or> e2 = [RecvTxNtfn (txHexString x tx) (blockDetails b (txIndex tx))]"
    by fastforce
  have "notifyForTx x m tx b = ?m2" by (simp add: notifyForTx_def Let_def)
  then have "ntfnChan (heap (notifyForTx x m tx b) c) = ntfnChan (heap m c) @ e1 @ e2"
    using e1(1) e2(1) by simp
  then show ?thesis using e1(2) e2(2) by blast
qed

lemma nntc_extra:
  "\<not> isRecvTx j \<Longrightarrow> \<not> isRedeemingTx j \<Longrightarrow>
   (\<forall>w. v = Some w \<longrightarrow> \<not> isRecvTx w \<and> \<not> isRedeemingTx w) \<Longrightarrow>
   \<exists>e. ntfnChan (heap (notifyNewTxClients x tx j cs v m) c) = ntfnChan (heap m c) @ e \<and>
       (\<forall>n\<in>set e. \<not> isRecvTx n \<and> \<not> isRedeemingTx n)"
proof (induction cs arbitrary: m v)
  case Nil
  then show ?case by simp
next
  case (Cons c' cs)
  have step: "\<exists>e. ntfnChan (heap (notifyNewTxClients x tx j cs v' (queueTo m c' k)) c) =
                  ntfnChan (heap m c) @ e \<and> (\<forall>n\<in>set e. \<not> isRecvTx n \<and> \<not> isRedeemingTx n)"
    if "\<not> isRecvTx k" "\<not> isRedeemingTx k" "\<forall>w. v' = Some w \<longrightarrow> \<not> isRecvTx w \<and> \<not> isRedeemingTx w"
    for k v'
  proof -
    from Cons.IH [OF Cons.prems(1,2) that(3), of "queueTo m c' k"] obtain e where
      e: "ntfnChan (heap (notifyNewTxClients x tx j cs v' (queueTo m c' k)) c) =
            ntfnChan (heap (queueTo m c' k) c) @ e"
         "\<forall>n\<in>set e. \<not> isRecvTx n \<and> \<not> isRedeemingTx n" by blast
    show ?thesis
    proof (cases "c = c' \<and> \<not> disconnected (heap m c')")
      case True
      then have "ntfnChan (heap (notifyNewTxClients x tx j cs v' (queueTo m c' k)) c) =
            ntfnChan (heap m c) @ (k # e)" using e(1) by (simp add: queueTo_ntfn')
      moreover have "\<forall>n\<in>set (k # e). \<not> isRecvTx n \<and> \<not> isRedeemingTx n" using e(2) that by simp
      ultimately show ?thesis by blast
    next
      case False
      then have "ntfnChan (heap (queueTo m c' k) c) = ntfnChan (heap m c)"
        by (auto simp: queueTo_ntfn')
      then show ?thesis using e by auto
    qed
  qed
  show ?case
  proof (cases "verboseTxUpdates (heap m c')")
    case False
    then show ?thesis using step [OF Cons.prems(1,2,3)] by simp
  next
    case True
    note vb = this
    show ?thesis
    proof (cases v)
      case (Some w)
      then have "\<not> isRecvTx w" "\<not> isRedeemingTx w" using Cons.prems(3) by auto
      from step [OF this Cons.prems(3)] show ?thesis using vb Some by simp
    next
      case None
      show ?thesis
      proof (cases "createTxRawResult x tx")
        case None
        then show ?thesis using vb \<open>v = None\<close> by simp
      next
        case (Some rawTx)
        show ?thesis
        proof (cases "marshalFails x (TxAcceptedVerboseNtfn rawTx)")
          case True
          then show ?thesis using vb \<open>v = None\<close> Some by (simp add: MarshalCmd_def)
        next
          case False
          have "\<exists>e. ntfnChan (heap (notifyNewTxClients x tx j cs (Some (TxAcceptedVerboseNtfn rawTx))
                   (queueTo m c' (TxAcceptedVerboseNtfn rawTx))) c) = ntfnChan (heap m c) @ e \<and>
                   (\<forall>n\<in>set e. \<not> isRecvTx n \<and> \<not> isRedeemingTx n)"
            by (rule step) simp_all
          then show ?thesis using vb \<open>v = None\<close> Some False by (simp add: MarshalCmd_def)
        qed
      qed
    qed
  qed
qed

lemma nfnt_extra:
  "\<exists>e. ntfnChan (heap (notifyForNewTx x m tx) c) = ntfnChan (heap m c) @ e \<and>
       (\<forall>n\<in>set e. \<not> isRecvTx n \<and> \<not> isRedeemingTx n)"
proof (cases "marshalFails x (TxAcceptedNtfn (txSha tx) (foldl (\<lambda>a txOut. a + Value txOut) 0 (TxOut (MsgTx tx))))")
  case True
  then show ?thesis by (simp add: notifyForNewTx_def MarshalCmd_def Let_def)
next
  case False
  have "\<exists>e. ntfnChan (heap (notifyNewTxClients x tx
           (TxAcceptedNtfn (txSha tx) (foldl (\<lambda>a txOut. a + Value txOut) 0 (TxOut (MsgTx tx))))
           (txNotifications m) None m) c) = ntfnChan (heap m c) @ e \<and>
       (\<forall>n\<in>set e. \<not> isRecvTx n \<and> \<not> isRedeemingTx n)"
    by (rule nntc_extra) simp_all
  then show ?thesis using False by (simp add: notifyForNewTx_def MarshalCmd_def Let_def)
qed

text \<open>
  Claim C6. While the handler deals with one transaction, be it a transaction of a
  connected block (\<open>notifyForTx\<close> with the block) or a transaction accepted by the mempool
  (the whole handling of that message), the queue of every client grows by at most one
  \<open>recvtx\<close> and at most one \<open>redeemingtx\<close> notification, however many inputs spend watched
  outpoints and however many outputs pay watched addresses.
\<close>

theorem notifyForTx_at_most_once:
  "(\<exists>extra. ntfnChan (heap (notifyForTx x m tx block) c) = ntfnChan (heap m c) @ extra \<and>
      length (filter isRecvTx extra) \<le> 1 \<and> length (filter isRedeemingTx extra) \<le> 1) \<and>
   (\<exists>extra. ntfnChan (heap (notificationHandler x m (notificationTxAcceptedByMempool isNew tx)) c) =
        ntfnChan (heap m c) @ extra \<and>
      length (filter isRecvTx extra) \<le> 1 \<and> length (filter isRedeemingTx extra) \<le> 1)"
proof
  have A: "\<exists>extra. ntfnChan (heap (notifyForTx x m' tx b) c) = ntfnChan (heap m' c) @ extra \<and>
      length (filter isRecvTx extra) \<le> 1 \<and> length (filter isRedeemingTx extra) \<le> 1" for m' b
  proof -
    from nft_once [of x m' tx b c] obtain e1 e2 where
      q: "ntfnChan (heap (notifyForTx x m' tx b) c) = ntfnChan (heap m' c) @ e1 @ e2"
      and a: "e1 = [] \<or> e1 = [RedeemingTxNtfn (txHexString x tx) (blockDetails b (txIndex tx))]"
      and b: "e2 = [] \<or> e2 = [RecvTxNtfn (txHexString x tx) (blockDetails b (txIndex tx))]"
      by blast
    have "length (filter isRecvTx (e1 @ e2)) \<le> 1 \<and> length (filter isRedeemingTx (e1 @ e2)) \<le> 1"
      using a b by auto
    then show ?thesis using q by blast
  qed
  show "\<exists>extra. ntfnChan (heap (notifyForTx x m tx block) c) = ntfnChan (heap m c) @ extra \<and>
      length (filter isRecvTx extra) \<le> 1 \<and> length (filter isRedeemingTx extra) \<le> 1"
    by (rule A)
  let ?m1 = "if isNew \<and> length (txNotifications m) \<noteq> 0 then notifyForNewTx x m tx else m"
  have "\<exists>e0. ntfnChan (heap ?m1 c) = ntfnChan (heap m c) @ e0 \<and>
      (\<forall>n\<in>set e0. \<not> isRecvTx n \<and> \<not> isRedeemingTx n)"
  proof (cases "isNew \<and> length (txNotifications m) \<noteq> 0")
    case True
    then show ?thesis using nfnt_extra [of x m tx c] by simp
  next
    case False
    then have "?m1 = m" by auto
    then have "ntfnChan (heap ?m1 c) = ntfnChan (heap m c) @ []" by simp
    then show ?thesis by fastforce
  qed
  then obtain e0 where e0: "ntfnChan (heap ?m1 c) = ntfnChan (heap m c) @ e0"
      "\<forall>n\<in>set e0. \<not> isRecvTx n \<and> \<not> isRedeemingTx n" by blast
  from A [of ?m1 None] obtain e where
    e: "ntfnChan (heap (notifyForTx x ?m1 tx None) c) = ntfnChan (heap ?m1 c) @ e"
       "length (filter isRecvTx e) \<le> 1" "length (filter isRedeemingTx e) \<le> 1" by blast
  have f: "filter isRecvTx e0 = []" "filter isRedeemingTx e0 = []"
    using e0(2) by (auto simp: filter_empty_conv)
  have "ntfnChan (heap (notificationHandler x m (notificationTxAcceptedByMempool isNew tx)) c) =
        ntfnChan (heap m c) @ (e0 @ e)"
    using e(1) e0(1) by (simp add: Let_def)
  moreover have "length (filter isRecvTx (e0 @ e)) \<le> 1 \<and> length (filter isRedeemingTx (e0 @ e)) \<le> 1"
    using f e(2,3) by simp
  ultimately show "\<exists>extra. ntfnChan (heap (notificationHandler x m (notificationTxAcceptedByMempool isNew tx)) c) =
        ntfnChan (heap m c) @ extra \<and>
      length (filter isRecvTx extra) \<le> 1 \<and> length (filter isRedeemingTx extra) \<le> 1"
    by blast
qed

theorem notifyForTx_at_most_once_witness:
  "ntfnChan (heap exWatchingBoth 1) = [] \<and>
   length (filter isRecvTx
     (ntfnChan (heap (notifyForTx exExternals exWatchingBoth exTwoInputs (Some exBlock)) 1))) \<le> 1 \<and>
   length (filter isRedeemingTx
     (ntfnChan (heap (notifyForTx exExternals exWatchingBoth exTwoInputs (Some exBlock)) 1))) \<le> 1 \<and>
   ntfnChan (heap (notifyForTx exExternals exWatchingBoth exTwoInputs (Some exBlock)) 1) =
     [RedeemingTxNtfn ''hex'' (Some (BlockDetails 100 [9] 0 1700000000)),
      RecvTxNtfn ''hex'' (Some (BlockDetails 100 [9] 0 1700000000))]"
proof -
  have q0: "ntfnChan (heap exWatchingBoth 1) = []"
    by (simp add: exWatchingBoth_def newHandlerState_def exHeap_def newWebsocketClient_def Let_def)
  from notifyForTx_at_most_once [of exExternals exWatchingBoth exTwoInputs "Some exBlock" 1 True]
  obtain extra where
    e: "ntfnChan (heap (notifyForTx exExternals exWatchingBoth exTwoInputs (Some exBlock)) 1) =
          ntfnChan (heap exWatchingBoth 1) @ extra"
       "length (filter isRecvTx extra) \<le> 1" "length (filter isRedeemingTx extra) \<le> 1"
    by blast
  have b: "length (filter isRecvTx
     (ntfnChan (heap (notifyForTx exExternals exWatchingBoth exTwoInputs (Some exBlock)) 1))) \<le> 1"
     "length (filter isRedeemingTx
     (ntfnChan (heap (notifyForTx exExternals exWatchingBoth exTwoInputs (Some exBlock)) 1))) \<le> 1"
    using e q0 by simp_all
  have v: "ntfnChan (heap (notifyForTx exExternals exWatchingBoth exTwoInputs (Some exBlock)) 1) =
     [RedeemingTxNtfn ''hex'' (Some (BlockDetails 100 [9] 0 1700000000)),
      RecvTxNtfn ''hex'' (Some (BlockDetails 100 [9] 0 1700000000))]"
    by (simp add: notifyForTx_def notifyForTxIns_def notifyForTxOuts_def exWatchingBoth_def
          newHandlerState_def exHeap_def newWebsocketClient_def exTwoInputs_def exBlock_def
          exExternals_def exOutPoint_def newRedeemingTxNotification_def MarshalCmd_def
          blockDetails_def removeSpentRequest_def queueTo_def QueueNotification_def
          Disconnected_def Let_def)
  from q0 b v show ?thesis by blast
qed

subsection \<open>Marshalling failures\<close>

text \<open>
  Claim C4 says that a marshalling failure drops only the notification that failed and
  that the other notifications of the event are still attempted. \<open>notifyForTxIns\<close> and
  \<open>notifyForTxOuts\<close> go on with the next input or address, but \<open>notifyForNewTx\<close> returns:
  with two mempool subscribers, client 1 verbose and client 2 not, both are notified
  when marshalling works; when only the verbose notification fails to marshal, client 2
  is not sent its \<open>txaccepted\<close> notification, which did marshal; when only the compact
  notification fails, client 1 is not sent the verbose one.
\<close>

theorem notifyForNewTx_marshal_failure_drops_others:
  "ntfnChan (heap (notificationHandler exExternals exMempoolSubscribers
       (notificationTxAcceptedByMempool True exTx)) 1) = [TxAcceptedVerboseNtfn ''raw''] \<and>
   ntfnChan (heap (notificationHandler exExternals exMempoolSubscribers
       (notificationTxAcceptedByMempool True exTx)) 2) = [TxAcceptedNtfn [8] 100] \<and>
   \<not> marshalFails exVerboseFails (TxAcceptedNtfn [8] 100) \<and>
   ntfnChan (heap (notificationHandler exVerboseFails exMempoolSubscribers
       (notificationTxAcceptedByMempool True exTx)) 2) = [] \<and>
   \<not> marshalFails exCompactFails (TxAcceptedVerboseNtfn ''raw'') \<and>
   ntfnChan (heap (notificationHandler exCompactFails exMempoolSubscribers
       (notificationTxAcceptedByMempool True exTx)) 1) = []"
  by (simp add: notifyForNewTx_def notifyForTx_def MarshalCmd_def queueTo_def
        QueueNotification_def Disconnected_def exMempoolSubscribers_def newHandlerState_def
        exHeap_def newWebsocketClient_def exTx_def exExternals_def exVerboseFails_def
        exCompactFails_def Let_def)

section \<open>Properties of a client\<close>

text \<open>
  Claim C8. \<open>SendMessage\<close> on a disconnected client puts nothing on \<open>sendChan\<close>, sends
  \<open>false\<close> on the done channel when there is one, and reports nothing else; on a connected
  client it appends the response. There is no error result in either case.
\<close>

theorem SendMessage_disconnected:
  "(disconnected c \<longrightarrow>
      SendMessage c marshalledJSON done =
        (c, case done of None \<Rightarrow> [] | Some d \<Rightarrow> [(d, False)])) \<and>
   (\<not> disconnected c \<longrightarrow>
      SendMessage c marshalledJSON done =
        (c\<lparr>sendChan := sendChan c @ [\<lparr>msg = marshalledJSON, doneChan = done\<rparr>]\<rparr>, []))"
  by (simp add: SendMessage_def Disconnected_def split: option.splits)

theorem SendMessage_disconnected_witness:
  "disconnected (Disconnect exAuthenticated) \<and>
   SendMessage (Disconnect exAuthenticated) [42] (Some 3) = (Disconnect exAuthenticated, [(3, False)]) \<and>
   SendMessage (Disconnect exAuthenticated) [42] None = (Disconnect exAuthenticated, []) \<and>
   sendChan (fst (SendMessage exAuthenticated [42] None)) = [\<lparr>msg = [42], doneChan = None\<rparr>]"
proof -
  have d: "disconnected (Disconnect exAuthenticated)"
    by (simp add: Disconnect_def)
  have n: "\<not> disconnected exAuthenticated" "sendChan exAuthenticated = []"
    by (simp_all add: exAuthenticated_def newWebsocketClient_def)
  from SendMessage_disconnected [of "Disconnect exAuthenticated" "[42]" "Some 3"]
    SendMessage_disconnected [of "Disconnect exAuthenticated" "[42]" None]
    SendMessage_disconnected [of exAuthenticated "[42]" None] d n
  show ?thesis by simp
qed

text \<open>
  Claim C7, as the code has it. An unauthenticated client is disconnected by a message
  that does not parse, that is not an \<open>authenticate\<close> command, or whose credentials hash to
  neither stored digest. On a match the client becomes authenticated, is admin exactly
  when the admin digest matched, and is sent the reply built from the request id with no
  result and no error (when that reply marshals). An authenticated client is disconnected
  by an \<open>authenticate\<close> command that carries an id and passes the check for limited users.
\<close>

theorem handleMessage_authenticate:
  "(\<not> authenticated c \<longrightarrow>
      ((\<exists>e. jsonUnmarshal x message = Inl e) \<longrightarrow> fst (handleMessage s x c message) = Disconnect c) \<and>
      (\<forall>request. jsonUnmarshal x message = Inr request \<longrightarrow>
         (err (parseCmd x request) \<noteq> None \<longrightarrow> fst (handleMessage s x c message) = Disconnect c) \<and>
         (err (parseCmd x request) = None \<longrightarrow>
            (\<forall>other. cmd (parseCmd x request) = OtherCmd other \<longrightarrow>
               fst (handleMessage s x c message) = Disconnect c) \<and>
            (\<forall>username passphrase. cmd (parseCmd x request) = AuthenticateCmd username passphrase \<longrightarrow>
               (Sum256 x (''Basic '' @ base64Encode x (username @ '':'' @ passphrase)) \<noteq> authsha s \<and>
                Sum256 x (''Basic '' @ base64Encode x (username @ '':'' @ passphrase)) \<noteq> limitauthsha s \<longrightarrow>
                  fst (handleMessage s x c message) = Disconnect c) \<and>
               (Sum256 x (''Basic '' @ base64Encode x (username @ '':'' @ passphrase)) = authsha s \<or>
                Sum256 x (''Basic '' @ base64Encode x (username @ '':'' @ passphrase)) = limitauthsha s \<longrightarrow>
                  authenticated (fst (handleMessage s x c message)) \<and>
                  (isAdmin (fst (handleMessage s x c message)) \<longleftrightarrow>
                     Sum256 x (''Basic '' @ base64Encode x (username @ '':'' @ passphrase)) = authsha s) \<and>
                  disconnected (fst (handleMessage s x c message)) = disconnected c \<and>
                  (\<forall>reply. createMarshalledReply x (id (parseCmd x request)) None None = Some reply \<longrightarrow>
                     \<not> disconnected c \<longrightarrow>
                     sendChan (fst (handleMessage s x c message)) =
                       sendChan c @ [\<lparr>msg = reply, doneChan = None\<rparr>])))))) \<and>
   (authenticated c \<longrightarrow>
      (\<forall>request username passphrase.
         jsonUnmarshal x message = Inr request \<longrightarrow> ID request \<noteq> None \<longrightarrow>
         (isAdmin c \<or> Method request \<in> set (rpcLimited x)) \<longrightarrow>
         err (parseCmd x request) = None \<longrightarrow>
         cmd (parseCmd x request) = AuthenticateCmd username passphrase \<longrightarrow>
           fst (handleMessage s x c message) = Disconnect c))"
  by (auto simp: handleMessage_def Let_def sendReply_def SendMessage_def Disconnected_def
        ConstantTimeCompare_def split: sum.splits Cmd.splits option.splits)

theorem handleMessage_authenticate_witness:
  "\<not> authenticated (newWebsocketClient ''client'' False False) \<and>
   handleMessage exServer exRpcExternals (newWebsocketClient ''client'' False False) [9] =
     (Disconnect (newWebsocketClient ''client'' False False), []) \<and>
   fst (handleMessage exServer exRpcExternals (newWebsocketClient ''client'' False False) [3]) =
     Disconnect (newWebsocketClient ''client'' False False) \<and>
   fst (handleMessage exServer exRpcExternals (newWebsocketClient ''client'' False False) [1]) =
     (newWebsocketClient ''client'' True True)\<lparr>sendChan := [\<lparr>msg = [42], doneChan = None\<rparr>]\<rparr> \<and>
   fst (handleMessage exServer exRpcExternals exAuthenticated [1]) = Disconnect exAuthenticated \<and>
   disconnected (Disconnect exAuthenticated)"
proof -
  let ?c = "newWebsocketClient ''client'' False False"
  have u: "\<not> authenticated ?c" by (simp add: newWebsocketClient_def)
  have a: "authenticated exAuthenticated" by (simp add: exAuthenticated_def newWebsocketClient_def)
  have j9: "jsonUnmarshal exRpcExternals [9] = Inl ''invalid character''"
    by (simp add: exRpcExternals_def)
  have j3: "jsonUnmarshal exRpcExternals [3] = Inr \<lparr>ID = Some [50], Method = ''notifyblocks'', Params = []\<rparr>"
    by (simp add: exRpcExternals_def)
  have j1: "jsonUnmarshal exRpcExternals [1] = Inr \<lparr>ID = Some [49], Method = ''authenticate'', Params = []\<rparr>"
    by (simp add: exRpcExternals_def)
  have d1: "fst (handleMessage exServer exRpcExternals ?c [9]) = Disconnect ?c"
    using handleMessage_authenticate [of ?c exRpcExternals "[9]" exServer] u j9 by simp
  have d2: "fst (handleMessage exServer exRpcExternals ?c [3]) = Disconnect ?c"
    using handleMessage_authenticate [of ?c exRpcExternals "[3]" exServer] u j3
    by (simp add: exRpcExternals_def)
  have d3: "fst (handleMessage exServer exRpcExternals exAuthenticated [1]) = Disconnect exAuthenticated"
    using handleMessage_authenticate [of exAuthenticated exRpcExternals "[1]" exServer] a j1
    by (simp add: exRpcExternals_def exAuthenticated_def newWebsocketClient_def)
  show ?thesis using u d1 d2 d3
    by (simp add: handleMessage_def exRpcExternals_def exServer_def exAuthenticated_def
          newWebsocketClient_def Let_def sendReply_def SendMessage_def Disconnected_def
          ConstantTimeCompare_def Disconnect_def)
qed

text \<open>
  The claim as it was stated, any further \<open>authenticate\<close> command, fails for a request
  without an id: \<open>handleMessage\<close> returns before it looks at the command, and the client
  stays connected.
\<close>

theorem handleMessage_authenticate_counterexample:
  "authenticated exAuthenticated \<and>
   jsonUnmarshal exRpcExternals [2] = Inr \<lparr>ID = None, Method = ''authenticate'', Params = []\<rparr> \<and>
   cmd (parseCmd exRpcExternals \<lparr>ID = None, Method = ''authenticate'', Params = []\<rparr>) =
     AuthenticateCmd ''user'' ''pass'' \<and>
   handleMessage exServer exRpcExternals exAuthenticated [2] = (exAuthenticated, []) \<and>
   \<not> disconnected exAuthenticated"
  by (simp add: handleMessage_def exRpcExternals_def exAuthenticated_def newWebsocketClient_def)

section \<open>Properties of the rescan\<close>

text \<open>
  The model at work: an open-ended rescan that begins at \<open>exBlock\<close>, the tip of \<open>exDb\<close>,
  scans that block, finds the tip unchanged, registers the client for further
  notifications and queues \<open>rescanfinished\<close> for the block.
\<close>

lemma handleRescan_open_ended_example:
  "handleRescan 10 exExternals exRescanExternals exDb 1 exAuthenticated
     (RescanCmdPtr (exRescanCmd\<lparr>EndBlock := None\<rparr>)) =
   Some (Returned None,
         \<lparr>rsClient = exAuthenticated\<lparr>ntfnChan := [RescanFinishedNtfn [9] 100 1700000000]\<rparr>,
          lookups = emptyRescanKeys,
          rsLog = [Infof ''Beginning rescan'', Infof ''Finished rescan''],
          rsQueued = [notificationRegisterSpent 1 [], notificationRegisterAddr 1 []]\<rparr>)"
  by (simp add: handleRescan_def exRescanCmd_def exRescanExternals_def exDb_def Let_def
        emptyRescanKeys_def rescanFinished_def exAuthenticated_def newWebsocketClient_def
        rescanBlock_def rescanTx_def exBlock_def exTx_def unspentSlice_def MarshalCmd_def
        exExternals_def QueueNotification_def Disconnected_def descendantBlock_def
        rescanKeyMatch_def word_sless_alt)

text \<open>
  When the begin block and the end block have the same height, a call that gets past the
  decoding of its arguments ends in the panic, whatever the database holds.
\<close>

lemma handleRescan_begin_eq_end:
  assumes "NewShaHashFromStr rx (BeginBlock rc) = Some h1"
      and "EndBlock rc = Some e" and "NewShaHashFromStr rx e = Some h2"
      and "FetchBlockHeightBySha db h1 = Inr n" and "FetchBlockHeightBySha db h2 = Inr n"
      and "handleRescan fuel x rx db wsc c (RescanCmdPtr rc) = Some (res, st)"
    shows "(\<exists>e. res = Returned (Some e)) \<or>
           (res = NilDereferencePanic \<and> ntfnChan (rsClient st) = ntfnChan c)"
  using assms
  by (auto simp: handleRescan_def Let_def rescanFinished_def split: sum.splits)

text \<open>
  Claim C1 says that a rescan whose begin block is its end block sends no notification
  for a block and then \<open>rescanfinished\<close> for that block, and returns a null result. In the
  code the loop is not entered, \<open>lastBlock\<close> and \<open>lastBlockHash\<close> are still nil, and building
  the \<open>rescanfinished\<close> notification dereferences them: for every amount of fuel the call
  ends in the panic, with nothing queued for the client.
\<close>

theorem handleRescan_same_block_panics:
  "handleRescan fuel exExternals exRescanExternals exDb 1 exAuthenticated
     (RescanCmdPtr exRescanCmd) =
   Some (NilDereferencePanic,
         \<lparr>rsClient = exAuthenticated, lookups = emptyRescanKeys,
          rsLog = [Infof ''Beginning rescan''], rsQueued = []\<rparr>) \<and>
   ntfnChan exAuthenticated = []"
  by (simp add: handleRescan_def exRescanCmd_def exRescanExternals_def exDb_def Let_def
        emptyRescanKeys_def rescanFinished_def exAuthenticated_def newWebsocketClient_def)


subsection \<open>The unspent set of a rescan\<close>

lemma keyMatch_cong:
  "r\<lparr>unspent := []\<rparr> = r'\<lparr>unspent := []\<rparr> \<Longrightarrow> rescanKeyMatch x r a = rescanKeyMatch x r' a"
proof -
  assume e: "r\<lparr>unspent := []\<rparr> = r'\<lparr>unspent := []\<rparr>"
  have "fallbacks r = fallbacks r'" using arg_cong [OF e, of fallbacks] by simp
  moreover have "pubKeyHashes r = pubKeyHashes r'" using arg_cong [OF e, of pubKeyHashes] by simp
  moreover have "scriptHashes r = scriptHashes r'" using arg_cong [OF e, of scriptHashes] by simp
  moreover have "compressedPubKeys r = compressedPubKeys r'"
    using arg_cong [OF e, of compressedPubKeys] by simp
  moreover have "uncompressedPubKeys r = uncompressedPubKeys r'"
    using arg_cong [OF e, of uncompressedPubKeys] by simp
  ultimately show ?thesis by (cases a) (simp_all add: rescanKeyMatch_def)
qed

lemma outputMatches_cong:
  "r\<lparr>unspent := []\<rparr> = r'\<lparr>unspent := []\<rparr> \<Longrightarrow> outputMatches x r t = outputMatches x r' t"
  by (simp add: outputMatches_def keyMatch_cong [of r r'])

lemma matchingOutPoints_cong:
  "r\<lparr>unspent := []\<rparr> = r'\<lparr>unspent := []\<rparr> \<Longrightarrow>
   matchingOutPoints x r sha i outs = matchingOutPoints x r' sha i outs"
  by (induction outs arbitrary: i) (simp_all add: outputMatches_cong [of r r'])

lemma queue_connected:
  "\<not> disconnected c \<Longrightarrow> QueueNotification c j = (None, c\<lparr>ntfnChan := ntfnChan c @ [j]\<rparr>)"
  by (simp add: QueueNotification_def Disconnected_def)

lemma rescanTxIns_connected:
  "\<not> disconnected (rsClient st) \<Longrightarrow>
   \<exists>st' f'. rescanTxIns x tx blk ins (st, f) = Next (st', f') \<and>
     \<not> disconnected (rsClient st') \<and>
     set (unspent (lookups st')) = set (unspent (lookups st)) - PreviousOutPoint ` set ins \<and>
     (lookups st')\<lparr>unspent := []\<rparr> = (lookups st)\<lparr>unspent := []\<rparr>"
proof (induction ins arbitrary: st f)
  case Nil
  then show ?case by simp
next
  case (Cons txin rest)
  let ?po = "PreviousOutPoint txin"
  show ?case
  proof (cases "?po \<in> set (unspent (lookups st))")
    case False
    then show ?thesis using Cons.IH [OF Cons.prems, of f] by auto
  next
    case True
    let ?st1 = "st\<lparr>lookups := (lookups st)\<lparr>unspent := removeAll ?po (unspent (lookups st))\<rparr>\<rparr>"
    have a: "set (unspent (lookups ?st1)) = set (unspent (lookups st)) - {?po}"
      and k: "(lookups ?st1)\<lparr>unspent := []\<rparr> = (lookups st)\<lparr>unspent := []\<rparr>"
      and d: "\<not> disconnected (rsClient ?st1)" using Cons.prems by auto
    have step: "\<exists>st' f'. rescanTxIns x tx blk rest (s, g) = Next (st', f') \<and>
       \<not> disconnected (rsClient st') \<and>
       set (unspent (lookups st')) = set (unspent (lookups st)) - PreviousOutPoint ` set (txin # rest) \<and>
       (lookups st')\<lparr>unspent := []\<rparr> = (lookups st)\<lparr>unspent := []\<rparr>"
      if "\<not> disconnected (rsClient s)" and "lookups s = lookups ?st1" for s g
      using Cons.IH [OF that(1), of g] that(2) a k by auto
    show ?thesis
    proof (cases f)
      case True
      then show ?thesis using \<open>?po \<in> set (unspent (lookups st))\<close> step [of ?st1 f] d
        by (simp add: Let_def)
    next
      case False
      note nf = this
      show ?thesis
      proof (cases "newRedeemingTxNotification x (txHexString x tx) (txIndex tx) (Some blk)")
        case None
        then show ?thesis
          using \<open>?po \<in> set (unspent (lookups st))\<close> nf d
            step [of "?st1\<lparr>rsLog := rsLog ?st1 @ [Errorf ''Failed to marshal redeemingtx notification'']\<rparr>" f]
          by (simp add: Let_def)
      next
        case (Some j)
        then show ?thesis
          using \<open>?po \<in> set (unspent (lookups st))\<close> nf d
            step [of "?st1\<lparr>rsClient := (rsClient ?st1)\<lparr>ntfnChan := ntfnChan (rsClient ?st1) @ [j]\<rparr>\<rparr>" True]
          by (simp add: Let_def queue_connected)
      qed
    qed
  qed
qed

lemma rescanTxOutAddrs_connected:
  assumes ok: "\<not> marshalFails x (RecvTxNtfn (txHexString x tx) (blockDetails (Some blk) (txIndex tx)))"
  shows "\<not> disconnected (rsClient st) \<Longrightarrow>
   \<exists>st' f'. rescanTxOutAddrs x tx blk i as (st, f) = Next (st', f') \<and>
     \<not> disconnected (rsClient st') \<and>
     set (unspent (lookups st')) = set (unspent (lookups st)) \<union>
        (if \<exists>a\<in>set as. rescanKeyMatch x (lookups st) a = Some True
         then {OutPoint (txSha tx) (of_nat i)} else {}) \<and>
     (lookups st')\<lparr>unspent := []\<rparr> = (lookups st)\<lparr>unspent := []\<rparr>"
proof (induction as arbitrary: st f)
  case Nil
  then show ?case by simp
next
  case (Cons a rest)
  let ?op = "OutPoint (txSha tx) (of_nat i)"
  let ?j = "RecvTxNtfn (txHexString x tx) (blockDetails (Some blk) (txIndex tx))"
  have mj: "MarshalCmd x ?j = Some ?j" using ok by (simp add: MarshalCmd_def)
  show ?case
  proof (cases "rescanKeyMatch x (lookups st) a")
    case None
    let ?s = "st\<lparr>rsLog := rsLog st @ [Warnf ''Skipping rescanned pubkey of unknown serialized length'']\<rparr>"
    have "\<not> disconnected (rsClient ?s)" using Cons.prems by simp
    from Cons.IH [OF this, of f] None show ?thesis by auto
  next
    case (Some b)
    show ?thesis
    proof (cases b)
      case False
      then show ?thesis using Some Cons.IH [OF Cons.prems, of f] by auto
    next
      case True
      let ?st1 = "st\<lparr>lookups := (lookups st)\<lparr>unspent := List.insert ?op (unspent (lookups st))\<rparr>\<rparr>"
      have k: "(lookups ?st1)\<lparr>unspent := []\<rparr> = (lookups st)\<lparr>unspent := []\<rparr>" by simp
      have a: "set (unspent (lookups ?st1)) = insert ?op (set (unspent (lookups st)))" by simp
      have step: "\<exists>st' f'. rescanTxOutAddrs x tx blk i rest (s, g) = Next (st', f') \<and>
         \<not> disconnected (rsClient st') \<and>
         set (unspent (lookups st')) = set (unspent (lookups st)) \<union> {?op} \<and>
         (lookups st')\<lparr>unspent := []\<rparr> = (lookups st)\<lparr>unspent := []\<rparr>"
        if "\<not> disconnected (rsClient s)" and "lookups s = lookups ?st1" for s g
      proof -
        from Cons.IH [OF that(1), of g] obtain st' f' where
          r: "rescanTxOutAddrs x tx blk i rest (s, g) = Next (st', f')"
          and d: "\<not> disconnected (rsClient st')"
          and u: "set (unspent (lookups st')) = set (unspent (lookups s)) \<union>
                 (if \<exists>a\<in>set rest. rescanKeyMatch x (lookups s) a = Some True then {?op} else {})"
          and kk: "(lookups st')\<lparr>unspent := []\<rparr> = (lookups s)\<lparr>unspent := []\<rparr>"
          by blast
        have "set (unspent (lookups st')) = set (unspent (lookups st)) \<union> {?op}"
          using u that(2) a by auto
        moreover have "(lookups st')\<lparr>unspent := []\<rparr> = (lookups st)\<lparr>unspent := []\<rparr>"
          using kk that(2) k by simp
        ultimately show ?thesis using r d by blast
      qed
      show ?thesis
      proof (cases f)
        case True
        then show ?thesis using Some \<open>b\<close> step [of ?st1 f] Cons.prems
          by (simp add: Let_def)
      next
        case False
        then show ?thesis using Some \<open>b\<close> Cons.prems mj
            step [of "?st1\<lparr>rsClient := (rsClient ?st1)\<lparr>ntfnChan := ntfnChan (rsClient ?st1) @ [?j]\<rparr>\<rparr>" True]
          by (simp add: Let_def queue_connected)
      qed
    qed
  qed
qed

lemma rescanTxOuts_connected:
  assumes ok: "\<not> marshalFails x (RecvTxNtfn (txHexString x tx) (blockDetails (Some blk) (txIndex tx)))"
  shows "\<not> disconnected (rsClient st) \<Longrightarrow>
   \<exists>st' f'. rescanTxOuts x tx blk i outs (st, f) = Next (st', f') \<and>
     \<not> disconnected (rsClient st') \<and>
     set (unspent (lookups st')) = set (unspent (lookups st)) \<union>
        set (matchingOutPoints x (lookups st) (txSha tx) i outs) \<and>
     (lookups st')\<lparr>unspent := []\<rparr> = (lookups st)\<lparr>unspent := []\<rparr>"
proof (induction outs arbitrary: st f i)
  case Nil
  then show ?case by simp
next
  case (Cons txout rest)
  let ?as = "case ExtractPkScriptAddrs x (PkScript txout) of None \<Rightarrow> [] | Some as \<Rightarrow> as"
  from rescanTxOutAddrs_connected [OF ok Cons.prems, of i ?as f] obtain s1 f1 where
    r1: "rescanTxOutAddrs x tx blk i ?as (st, f) = Next (s1, f1)"
    and d1: "\<not> disconnected (rsClient s1)"
    and u1: "set (unspent (lookups s1)) = set (unspent (lookups st)) \<union>
        (if \<exists>a\<in>set ?as. rescanKeyMatch x (lookups st) a = Some True
         then {OutPoint (txSha tx) (of_nat i)} else {})"
    and k1: "(lookups s1)\<lparr>unspent := []\<rparr> = (lookups st)\<lparr>unspent := []\<rparr>"
    by blast
  from Cons.IH [OF d1, of "Suc i" f1] obtain s2 f2 where
    r2: "rescanTxOuts x tx blk (Suc i) rest (s1, f1) = Next (s2, f2)"
    and d2: "\<not> disconnected (rsClient s2)"
    and u2: "set (unspent (lookups s2)) = set (unspent (lookups s1)) \<union>
        set (matchingOutPoints x (lookups s1) (txSha tx) (Suc i) rest)"
    and k2: "(lookups s2)\<lparr>unspent := []\<rparr> = (lookups s1)\<lparr>unspent := []\<rparr>"
    by blast
  have m: "matchingOutPoints x (lookups s1) (txSha tx) (Suc i) rest =
           matchingOutPoints x (lookups st) (txSha tx) (Suc i) rest"
    using k1 by (rule matchingOutPoints_cong)
  have "rescanTxOuts x tx blk i (txout # rest) (st, f) = Next (s2, f2)"
    using r1 r2 by (simp add: Let_def)
  moreover have "set (unspent (lookups s2)) = set (unspent (lookups st)) \<union>
        set (matchingOutPoints x (lookups st) (txSha tx) i (txout # rest))"
  proof -
    have om: "(\<exists>a\<in>set ?as. rescanKeyMatch x (lookups st) a = Some True) =
              outputMatches x (lookups st) txout"
      by (simp add: outputMatches_def)
    show ?thesis unfolding u2 u1 m om by (simp add: Un_assoc)
  qed
  moreover have "(lookups s2)\<lparr>unspent := []\<rparr> = (lookups st)\<lparr>unspent := []\<rparr>"
    using k1 k2 by simp
  ultimately show ?case using d2 by blast
qed

lemma rescanTx_connected:
  assumes ok: "\<not> marshalFails x (RecvTxNtfn (txHexString x tx) (blockDetails (Some blk) (txIndex tx)))"
    and d: "\<not> disconnected (rsClient st)"
  shows "\<exists>st'. rescanTx x blk tx st = Next st' \<and> \<not> disconnected (rsClient st') \<and>
     set (unspent (lookups st')) = unspentAfterTx x (lookups st) (set (unspent (lookups st))) tx \<and>
     (lookups st')\<lparr>unspent := []\<rparr> = (lookups st)\<lparr>unspent := []\<rparr>"
proof -
  from rescanTxIns_connected [OF d, of x tx blk "TxIn (MsgTx tx)" False] obtain s1 f1 where
    r1: "rescanTxIns x tx blk (TxIn (MsgTx tx)) (st, False) = Next (s1, f1)"
    and d1: "\<not> disconnected (rsClient s1)"
    and u1: "set (unspent (lookups s1)) =
             set (unspent (lookups st)) - PreviousOutPoint ` set (TxIn (MsgTx tx))"
    and k1: "(lookups s1)\<lparr>unspent := []\<rparr> = (lookups st)\<lparr>unspent := []\<rparr>"
    by blast
  from rescanTxOuts_connected [OF ok d1, of 0 "TxOut (MsgTx tx)" False] obtain s2 f2 where
    r2: "rescanTxOuts x tx blk 0 (TxOut (MsgTx tx)) (s1, False) = Next (s2, f2)"
    and d2: "\<not> disconnected (rsClient s2)"
    and u2: "set (unspent (lookups s2)) = set (unspent (lookups s1)) \<union>
        set (matchingOutPoints x (lookups s1) (txSha tx) 0 (TxOut (MsgTx tx)))"
    and k2: "(lookups s2)\<lparr>unspent := []\<rparr> = (lookups s1)\<lparr>unspent := []\<rparr>"
    by blast
  have m: "matchingOutPoints x (lookups s1) (txSha tx) 0 (TxOut (MsgTx tx)) =
           matchingOutPoints x (lookups st) (txSha tx) 0 (TxOut (MsgTx tx))"
    using k1 by (rule matchingOutPoints_cong)
  have "rescanTx x blk tx st = Next s2" using r1 r2 by (simp add: rescanTx_def)
  moreover have "set (unspent (lookups s2)) =
      unspentAfterTx x (lookups st) (set (unspent (lookups st))) tx"
    using u1 u2 m by (simp add: unspentAfterTx_def)
  moreover have "(lookups s2)\<lparr>unspent := []\<rparr> = (lookups st)\<lparr>unspent := []\<rparr>"
    using k1 k2 by simp
  ultimately show ?thesis using d2 by blast
qed

lemma unspentAfterTx_cong:
  "r\<lparr>unspent := []\<rparr> = r'\<lparr>unspent := []\<rparr> \<Longrightarrow> unspentAfterTx x r = unspentAfterTx x r'"
  by (simp add: unspentAfterTx_def fun_eq_iff matchingOutPoints_cong [of r r'])

lemma rescanTxs_connected:
  "\<forall>tx\<in>set txs. \<not> marshalFails x (RecvTxNtfn (txHexString x tx) (blockDetails (Some blk) (txIndex tx))) \<Longrightarrow>
   \<not> disconnected (rsClient st) \<Longrightarrow>
   \<exists>st'. rescanTxs x blk txs st = Next st' \<and>
     set (unspent (lookups st')) = foldl (unspentAfterTx x (lookups st)) (set (unspent (lookups st))) txs"
proof (induction txs arbitrary: st)
  case Nil
  then show ?case by simp
next
  case (Cons tx rest)
  have ok: "\<not> marshalFails x (RecvTxNtfn (txHexString x tx) (blockDetails (Some blk) (txIndex tx)))"
    using Cons.prems(1) by simp
  from rescanTx_connected [OF ok Cons.prems(2)] obtain s1 where
    r1: "rescanTx x blk tx st = Next s1" and d1: "\<not> disconnected (rsClient s1)"
    and u1: "set (unspent (lookups s1)) = unspentAfterTx x (lookups st) (set (unspent (lookups st))) tx"
    and k1: "(lookups s1)\<lparr>unspent := []\<rparr> = (lookups st)\<lparr>unspent := []\<rparr>"
    by blast
  have rest: "\<forall>tx\<in>set rest. \<not> marshalFails x (RecvTxNtfn (txHexString x tx) (blockDetails (Some blk) (txIndex tx)))"
    using Cons.prems(1) by simp
  from Cons.IH [OF rest d1] obtain s2 where
    r2: "rescanTxs x blk rest s1 = Next s2"
    and u2: "set (unspent (lookups s2)) = foldl (unspentAfterTx x (lookups s1)) (set (unspent (lookups s1))) rest"
    by blast
  have c: "unspentAfterTx x (lookups s1) = unspentAfterTx x (lookups st)"
    using k1 by (rule unspentAfterTx_cong)
  have "rescanTxs x blk (tx # rest) st = Next s2" using r1 r2 by simp
  moreover have "set (unspent (lookups s2)) =
      foldl (unspentAfterTx x (lookups st)) (set (unspent (lookups st))) (tx # rest)"
    unfolding u2 c u1 by simp
  ultimately show ?case by blast
qed

text \<open>
  Claim C9, as the code has it. When \<open>rescanBlock\<close> is not stopped early, that is, the
  client is connected and the \<open>recvtx\<close> notifications of the block marshal, the unspent set
  after the block is the one obtained without looking at any notification: every input
  takes its previous outpoint out of the set and every output matching a rescan key puts
  its outpoint in, whether or not a \<open>redeemingtx\<close> or \<open>recvtx\<close> notification was already
  sent for the transaction and whether or not the \<open>redeemingtx\<close> notification marshals.
\<close>

theorem rescanBlock_unspent:
  assumes "\<not> disconnected (rsClient st)"
    and "\<forall>tx\<in>set (Transactions blk).
           \<not> marshalFails x (RecvTxNtfn (txHexString x tx) (blockDetails (Some blk) (txIndex tx)))"
  shows "set (unspent (lookups (rescanBlock x st blk))) =
         unspentAfterBlock x (lookups st) blk (set (unspent (lookups st)))"
proof -
  from rescanTxs_connected [OF assms(2) assms(1)] obtain st' where
    r: "rescanTxs x blk (Transactions blk) st = Next st'"
    and u: "set (unspent (lookups st')) =
            foldl (unspentAfterTx x (lookups st)) (set (unspent (lookups st))) (Transactions blk)"
    by blast
  have "rescanBlock x st blk = st'" using r by (simp add: rescanBlock_def)
  then show ?thesis using u by (simp add: unspentAfterBlock_def)
qed


theorem rescanBlock_unspent_witness:
  "\<not> disconnected (rsClient (exRescanState exAuthenticated)) \<and>
   marshalFails exRedeemFails (RedeemingTxNtfn ''hex'' (Some (BlockDetails 100 [9] 0 1700000000))) \<and>
   set (unspent (lookups (rescanBlock exRedeemFails (exRescanState exAuthenticated) exBlockTwoInputs))) =
     {OutPoint [8] 0, OutPoint [8] 1} \<and>
   ntfnChan (rsClient (rescanBlock exRedeemFails (exRescanState exAuthenticated) exBlockTwoInputs)) =
     [RecvTxNtfn ''hex'' (Some (BlockDetails 100 [9] 0 1700000000))]"
proof -
  have d: "\<not> disconnected (rsClient (exRescanState exAuthenticated))"
    by (simp add: exRescanState_def exAuthenticated_def newWebsocketClient_def)
  have m: "\<forall>tx\<in>set (Transactions exBlockTwoInputs).
      \<not> marshalFails exRedeemFails (RecvTxNtfn (txHexString exRedeemFails tx)
           (blockDetails (Some exBlockTwoInputs) (txIndex tx)))"
    by (simp add: exRedeemFails_def exExternals_def)
  have f: "marshalFails exRedeemFails (RedeemingTxNtfn ''hex'' (Some (BlockDetails 100 [9] 0 1700000000)))"
    by (simp add: exRedeemFails_def exExternals_def)
  have u: "unspentAfterBlock exRedeemFails (lookups (exRescanState exAuthenticated)) exBlockTwoInputs
             (set (unspent (lookups (exRescanState exAuthenticated)))) = {OutPoint [8] 0, OutPoint [8] 1}"
    by (auto simp: unspentAfterBlock_def unspentAfterTx_def exBlockTwoInputs_def exTwoInputs_def
          exRescanState_def emptyRescanKeys_def outputMatches_def rescanKeyMatch_def
          exRedeemFails_def exExternals_def exOutPoint_def)
  have q: "ntfnChan (rsClient (rescanBlock exRedeemFails (exRescanState exAuthenticated) exBlockTwoInputs)) =
     [RecvTxNtfn ''hex'' (Some (BlockDetails 100 [9] 0 1700000000))]"
    by (simp add: rescanBlock_def rescanTx_def exBlockTwoInputs_def exTwoInputs_def exBlock_def
          exRescanState_def emptyRescanKeys_def rescanKeyMatch_def newRedeemingTxNotification_def
          MarshalCmd_def blockDetails_def QueueNotification_def Disconnected_def
          exRedeemFails_def exExternals_def exOutPoint_def exAuthenticated_def
          newWebsocketClient_def Let_def)
  from rescanBlock_unspent [OF d m] u d f q show ?thesis by simp
qed

text \<open>
  The claim as it was stated, for every input, fails when the client has disconnected:
  queueing the first \<open>redeemingtx\<close> notification returns \<open>ErrClientQuit\<close>, \<open>rescanBlock\<close>
  returns, and the second input's outpoint stays in the unspent set.
\<close>

theorem rescanBlock_unspent_counterexample:
  "disconnected (rsClient (exRescanState (Disconnect exAuthenticated))) \<and>
   TxIn (MsgTx exTwoInputs) = [\<lparr>PreviousOutPoint = exOutPoint\<rparr>, \<lparr>PreviousOutPoint = OutPoint [7] 1\<rparr>] \<and>
   unspent (lookups (exRescanState (Disconnect exAuthenticated))) = [exOutPoint, OutPoint [7] 1] \<and>
   unspent (lookups (rescanBlock exExternals (exRescanState (Disconnect exAuthenticated))
                       exBlockTwoInputs)) = [OutPoint [7] 1]"
  by (simp add: rescanBlock_def rescanTx_def exBlockTwoInputs_def exTwoInputs_def exBlock_def
        exRescanState_def emptyRescanKeys_def newRedeemingTxNotification_def
        MarshalCmd_def blockDetails_def QueueNotification_def Disconnected_def Disconnect_def
        exExternals_def exOutPoint_def exAuthenticated_def newWebsocketClient_def Let_def)

end
